theory Spec2Isabelle
  imports Main "HOL-Library.Word" "HOL-Library.Sublist" "HOL-Library.Multiset"
begin

section \<open>The ADB session object (class \<open>Adb\<close>)\<close>

text \<open>
  A shallow embedding of the class \<open>Adb\<close>: its fields, the banner parser
  \<open>parseBanner\<close>, the handshake \<open>connect\<close> and \<open>dispose\<close>. The class drives an
  \<open>AdbPacketDispatcher\<close>, an \<open>AdbAuthenticationHandler\<close> and an \<open>AdbBackend\<close> that
  are declared in other modules; what the class needs of them is either a field of the
  record \<open>externals\<close> below or a small definition whose comment says where it comes from.
\<close>

subsection \<open>JavaScript strings\<close>

text \<open>
  \<open>String.prototype.split(separator)\<close> with a string separator: the pieces between the
  non-overlapping occurrences of the separator, found from left to right. The result is
  never empty for a non-empty separator (\<open>''''.split('';'')\<close> is \<open>['''']\<close>); an empty
  separator cuts the string into its characters. \<open>split_from sep acc s\<close> scans \<open>s\<close>
  with \<open>acc\<close> the piece read so far.
\<close>

function split_from :: "string \<Rightarrow> string \<Rightarrow> string \<Rightarrow> string list" where
  "split_from sep acc [] = [acc]"
| "split_from sep acc (c # cs) =
     (if sep \<noteq> [] \<and> prefix sep (c # cs)
      then acc # split_from sep [] (drop (length sep) (c # cs))
      else split_from sep (acc @ [c]) cs)"
  by pat_completeness auto
termination
  by (relation "measure (\<lambda>(sep, acc, s). length s)") auto

definition split :: "string \<Rightarrow> string \<Rightarrow> string list" where
  "split s sep = (if sep = [] then map (\<lambda>c. [c]) s else split_from sep [] s)"

text \<open>\<open>Array.prototype.join(separator)\<close>.\<close>

fun join :: "string list \<Rightarrow> string \<Rightarrow> string" where
  "join [] sep = []"
| "join [x] sep = x"
| "join (x # y # ys) sep = x @ sep @ join (y # ys) sep"

subsection \<open>Packets, errors and the collaborators of the class\<close>

text \<open>
  A 32-bit unsigned integer is a word: its order, and so \<open>min\<close>, is the unsigned one.
  A byte sequence is a list of \<open>char\<close>, Isabelle's 8-bit character.
\<close>

type_synonym uint32 = "32 word"
type_synonym bytes = "char list"

text \<open>
  Modelled from the spec: the enum \<open>AdbCommand\<close> and the packet type are declared in
  \<open>./packet\<close>, which is not among the sources. The spec gives a packet as
  \<open>{command: enum{CONNECT, AUTH, OPEN, OKAY, WRITE, CLOSE}, arg0: uint32, arg1: uint32,
  payload: byte sequence}\<close>.
\<close>

datatype AdbCommand = Auth | Close | Connect | Okay | Open | Write

record AdbPacket =
  command :: AdbCommand
  arg0 :: uint32
  arg1 :: uint32
  payload :: bytes

text \<open>A thrown JavaScript \<open>Error\<close> with its message.\<close>

datatype error = Error string

text \<open>
  The two ways the class calls \<open>sendPacket\<close>: with the four fields of a packet to build
  (the payload a string), or with a packet.
\<close>

datatype sendPacket_args =
  Init AdbCommand uint32 uint32 string
| Packet AdbPacket

text \<open>The listeners \<open>connect\<close> registers with the dispatcher.\<close>

datatype subscription = OnPacket | OnError

text \<open>
  Modelled from the spec: \<open>AdbPacketDispatcher\<close> is declared in \<open>./stream\<close>, which is not
  among the sources. The record holds the three parameters \<open>connect\<close> assigns, whether
  \<open>start()\<close> has been called, the listeners registered by \<open>onPacket\<close> and \<open>onError\<close>
  and not yet disposed, and the arguments of every \<open>sendPacket\<close> call that was accepted,
  in order.
\<close>

record AdbPacketDispatcher =
  maxPayloadSize :: uint32
  calculateChecksum :: bool
  appendNullToServiceString :: bool
  started :: bool
  listeners :: "subscription list"
  sent :: "sendPacket_args list"

text \<open>
  What the class takes from outside, as parameters. \<open>'a\<close> is the state of the
  \<open>AdbAuthenticationHandler\<close>.
  \<^item> \<open>StatV2\<close>: the enum member \<open>AdbFeatures.StatV2\<close> (\<open>./features\<close>);
  \<^item> \<open>backend_connect\<close>: the outcome of \<open>await this.backend.connect?.()\<close>, the error
    it throws if any;
  \<^item> \<open>backend_write\<close>: whether the transport accepts a \<open>sendPacket\<close>, given the
    packets accepted so far; \<open>Some e\<close> is the error \<open>sendPacket\<close> throws;
  \<^item> \<open>decodeUtf8\<close>: \<open>backend.decodeUtf8\<close>;
  \<^item> \<open>auth_init\<close>: \<open>new AdbAuthenticationHandler(authenticators, backend)\<close>;
  \<^item> \<open>auth_next\<close>: \<open>AdbAuthenticationHandler.next\<close>, which returns the packet to send
    or throws, and moves the handler to a new state;
  \<^item> \<open>dispatcher_createStream\<close>, \<open>dispatcher_dispose\<close>: the dispatcher's
    \<open>createStream\<close> and \<open>dispose\<close>;
  \<^item> \<open>backend_dispose\<close>: the outcome of \<open>await this.backend.dispose()\<close>;
  \<^item> \<open>escapeArg\<close>: the function of that name (\<open>./commands\<close>);
  \<^item> \<open>helper_services\<close>: the services a helper of \<open>./commands\<close> opens on the
    session it is given, in order (see \<open>commands_helper\<close> below).
\<close>

text \<open>
  The code of \<open>./commands\<close> that a method of the class hands the session to:
  \<open>install(this, apk, onProgress)\<close>, \<open>framebuffer(this)\<close> and the constructor
  \<open>new AdbSync(this, stream)\<close>.
\<close>

datatype helper = InstallHelper bytes | FramebufferHelper | AdbSyncConstructor

record 'a externals =
  StatV2 :: string
  backend_connect :: "error option"
  backend_write :: "sendPacket_args list \<Rightarrow> sendPacket_args \<Rightarrow> error option"
  decodeUtf8 :: "bytes \<Rightarrow> string"
  auth_init :: 'a
  auth_next :: "'a \<Rightarrow> AdbPacket \<Rightarrow> (error + AdbPacket) \<times> 'a"
  dispatcher_createStream ::
    "string \<Rightarrow> AdbPacketDispatcher \<Rightarrow> error option \<times> AdbPacketDispatcher"
  dispatcher_dispose :: "AdbPacketDispatcher \<Rightarrow> AdbPacketDispatcher"
  backend_dispose :: "error option"
  escapeArg :: "string \<Rightarrow> string"
  helper_services :: "helper \<Rightarrow> string list"

definition sendPacket ::
  "'a externals \<Rightarrow> sendPacket_args \<Rightarrow> AdbPacketDispatcher \<Rightarrow> error + AdbPacketDispatcher"
where
  "sendPacket ext x d =
     (case backend_write ext (sent d) x of
        Some e \<Rightarrow> Inl e
      | None \<Rightarrow> Inr (d\<lparr>sent := sent d @ [x]\<rparr>))"

definition start :: "AdbPacketDispatcher \<Rightarrow> AdbPacketDispatcher" where
  "start d = d\<lparr>started := True\<rparr>"

text \<open>
  \<open>onPacket(listener)\<close> and \<open>onError(listener)\<close> register a listener and return the
  handle that removes it; \<open>DisposableList.dispose()\<close> disposes every handle added to it.
\<close>

definition subscribe :: "subscription \<Rightarrow> AdbPacketDispatcher \<Rightarrow> AdbPacketDispatcher" where
  "subscribe l d = d\<lparr>listeners := listeners d @ [l]\<rparr>"

definition disposableList_dispose ::
  "subscription list \<Rightarrow> AdbPacketDispatcher \<Rightarrow> AdbPacketDispatcher"
where
  "disposableList_dispose ls d =
     d\<lparr>listeners := foldl (\<lambda>xs l. remove1 l xs) (listeners d) ls\<rparr>"

subsection \<open>The fields of \<open>Adb\<close>\<close>

text \<open>
  The private fields \<open>_connected\<close>, \<open>_product\<close>, \<open>_model\<close>, \<open>_device\<close> and
  \<open>_features\<close> under the names of their accessors; \<open>undefined\<close> is \<open>None\<close>.
\<close>

record Adb =
  packetDispatcher :: AdbPacketDispatcher
  connected :: bool
  product :: "string option"
  model :: "string option"
  device :: "string option"
  features :: "string list option"

text \<open>The constructor: the field initialisers, and a dispatcher that was never started.\<close>

definition new_Adb :: "AdbPacketDispatcher \<Rightarrow> Adb" where
  "new_Adb d =
     \<lparr>packetDispatcher = d, connected = False, product = None, model = None,
      device = None, features = None\<rparr>"

subsection \<open>\<open>parseBanner\<close>\<close>

definition AdbPropKey_Product :: string where
  "AdbPropKey_Product = ''ro.product.name''"

definition AdbPropKey_Model :: string where
  "AdbPropKey_Model = ''ro.product.model''"

definition AdbPropKey_Device :: string where
  "AdbPropKey_Device = ''ro.product.device''"

definition AdbPropKey_Features :: string where
  "AdbPropKey_Features = ''features''"

text \<open>
  The body of the \<open>for\<close> loop over the entries: an empty entry and an entry that
  \<open>split('=')\<close> does not cut into exactly two pieces are skipped (\<open>continue\<close>); a key
  that is none of the four falls through the \<open>switch\<close>.
\<close>

definition parseProp :: "Adb \<Rightarrow> string \<Rightarrow> Adb" where
  "parseProp s prop =
     (if prop = [] then s
      else case split prop ''='' of
        [key, val] \<Rightarrow>
          if key = AdbPropKey_Product then s\<lparr>product := Some val\<rparr>
          else if key = AdbPropKey_Model then s\<lparr>model := Some val\<rparr>
          else if key = AdbPropKey_Device then s\<lparr>device := Some val\<rparr>
          else if key = AdbPropKey_Features then s\<lparr>features := Some (split val '','')\<rparr>
          else s
      | _ \<Rightarrow> s)"

definition parseBanner :: "string \<Rightarrow> Adb \<Rightarrow> Adb" where
  "parseBanner banner s =
     (let s0 = s\<lparr>features := Some []\<rparr>;
          pieces = split banner ''::''
      in if length pieces > 1
         then foldl parseProp s0 (split (pieces ! 1) '';'')
         else s0)"

text \<open>
  Two readings of a banner used to state what \<open>parseBanner\<close> does: the entries its
  loop runs over (none when \<open>split('::')\<close> gives a single piece), and the key of an
  entry that \<open>split('=')\<close> cuts into exactly two pieces.
\<close>

definition entries :: "string \<Rightarrow> string list" where
  "entries banner =
     (let pieces = split banner ''::''
      in if length pieces > 1 then split (pieces ! 1) '';'' else [])"


subsection \<open>\<open>connect\<close>\<close>

text \<open>
  \<open>PromiseResolver<void>\<close>: the promise \<open>connect\<close> awaits. A promise settles once;
  \<open>resolve\<close> and \<open>reject\<close> on a settled promise do not change what its awaiter sees.
\<close>

datatype promise = Pending | Resolved | Rejected error

definition resolve :: "promise \<Rightarrow> promise" where
  "resolve r = (case r of Pending \<Rightarrow> Resolved | _ \<Rightarrow> r)"

definition reject :: "error \<Rightarrow> promise \<Rightarrow> promise" where
  "reject e r = (case r of Pending \<Rightarrow> Rejected e | _ \<Rightarrow> r)"

text \<open>The constants local to \<open>connect\<close>.\<close>

definition version :: uint32 where
  "version = 0x01000001"

definition versionNoChecksum :: uint32 where
  "versionNoChecksum = 0x01000001"

definition local_maxPayloadSize :: uint32 where
  "local_maxPayloadSize = 0x100000"

definition connect_features :: "'a externals \<Rightarrow> string" where
  "connect_features ext =
     join
       [''shell_v2'', ''cmd'', StatV2 ext, ''ls_v2'', ''fixed_push_mkdir'', ''apex'',
        ''abb'', ''fixed_push_symlink_timestamp'', ''abb_exec'', ''remount_shell'',
        ''track_app'', ''sendrecv_v2'', ''sendrecv_v2_brotli'', ''sendrecv_v2_lz4'',
        ''sendrecv_v2_zstd'', ''sendrecv_v2_dry_run_send'']
       '',''"

definition DeviceNotInCorrectState :: error where
  "DeviceNotInCorrectState =
     Error ''Device not in correct state. Reconnect your device and try again''"

text \<open>
  What the two listeners close over: the session, the authentication handler and the
  resolver.
\<close>

record 'a handshake =
  adb :: Adb
  authHandler :: 'a
  resolver :: promise

text \<open>
  The listener given to \<open>onPacket\<close>, run on one packet. Every \<open>throw\<close> and every
  rejected \<open>await\<close> inside its \<open>try\<close> ends in \<open>resolver.reject\<close>. The listener
  first sets \<open>e.handled = true\<close> on the event it is given, whatever the command; the
  event belongs to the dispatcher and is not part of the state here. The listener runs
  to its end before the next event is taken.
\<close>

definition onPacket_listener :: "'a externals \<Rightarrow> AdbPacket \<Rightarrow> 'a handshake \<Rightarrow> 'a handshake" where
  "onPacket_listener ext packet h =
     (case command packet of
        Connect \<Rightarrow>
          let d = packetDispatcher (adb h);
              d1 = d\<lparr>maxPayloadSize := min local_maxPayloadSize (arg1 packet)\<rparr>;
              d2 = (if min version (arg0 packet) \<ge> versionNoChecksum
                    then d1\<lparr>calculateChecksum := False, appendNullToServiceString := False\<rparr>
                    else d1)
          in h\<lparr>adb := parseBanner (decodeUtf8 ext (payload packet))
                          ((adb h)\<lparr>packetDispatcher := d2\<rparr>),
               resolver := resolve (resolver h)\<rparr>
      | Auth \<Rightarrow>
          (case auth_next ext (authHandler h) packet of
             (Inl e, a') \<Rightarrow> h\<lparr>authHandler := a', resolver := reject e (resolver h)\<rparr>
           | (Inr authPacket, a') \<Rightarrow>
               (case sendPacket ext (Packet authPacket) (packetDispatcher (adb h)) of
                  Inl e \<Rightarrow> h\<lparr>authHandler := a', resolver := reject e (resolver h)\<rparr>
                | Inr d' \<Rightarrow> h\<lparr>adb := (adb h)\<lparr>packetDispatcher := d'\<rparr>, authHandler := a'\<rparr>))
      | Close \<Rightarrow> h
      | _ \<Rightarrow> h\<lparr>resolver := reject DeviceNotInCorrectState (resolver h)\<rparr>)"

text \<open>The listener given to \<open>onError\<close>.\<close>

definition onError_listener :: "error \<Rightarrow> 'a handshake \<Rightarrow> 'a handshake" where
  "onError_listener e h = h\<lparr>resolver := reject e (resolver h)\<rparr>"

text \<open>
  What the dispatcher reports while \<open>connect\<close> waits: an inbound packet or an error.
  \<open>await_resolver\<close> is \<open>await resolver.promise\<close>: the events reach the listeners
  until the promise settles; then \<open>connect\<close> goes on and disposes the listeners, so
  later events do not reach them. With the promise still pending when the events end,
  \<open>connect\<close> is still waiting.
\<close>

datatype event = PacketEvent AdbPacket | ErrorEvent error

definition handle_event :: "'a externals \<Rightarrow> event \<Rightarrow> 'a handshake \<Rightarrow> 'a handshake" where
  "handle_event ext ev h =
     (case ev of
        PacketEvent p \<Rightarrow> onPacket_listener ext p h
      | ErrorEvent e \<Rightarrow> onError_listener e h)"

fun await_resolver :: "'a externals \<Rightarrow> event list \<Rightarrow> 'a handshake \<Rightarrow> 'a handshake" where
  "await_resolver ext [] h = h"
| "await_resolver ext (ev # evs) h =
     (if resolver h = Pending then await_resolver ext evs (handle_event ext ev h) else h)"

text \<open>
  How a call ends: it returns, it throws, or it is still waiting for its promise when
  the events given to it are used up. Each carries the session as the call leaves it.
\<close>

datatype outcome = Returned Adb | Threw error Adb | Awaiting Adb

definition session :: "outcome \<Rightarrow> Adb" where
  "session out = (case out of Returned s \<Rightarrow> s | Threw e s \<Rightarrow> s | Awaiting s \<Rightarrow> s)"

text \<open>The assignments to the dispatcher and \<open>start()\<close>, before the constants.\<close>

definition connect_configure :: "Adb \<Rightarrow> Adb" where
  "connect_configure s =
     s\<lparr>packetDispatcher :=
         start ((packetDispatcher s)
           \<lparr>maxPayloadSize := 0x1000, calculateChecksum := True,
            appendNullToServiceString := True\<rparr>)\<rparr>"

text \<open>The two \<open>disposableList.add\<close> calls, and \<open>disposableList.dispose()\<close>.\<close>

definition connect_subscribe :: "Adb \<Rightarrow> Adb" where
  "connect_subscribe s =
     s\<lparr>packetDispatcher := subscribe OnError (subscribe OnPacket (packetDispatcher s))\<rparr>"

definition connect_dispose :: "Adb \<Rightarrow> Adb" where
  "connect_dispose s =
     s\<lparr>packetDispatcher := disposableList_dispose [OnPacket, OnError] (packetDispatcher s)\<rparr>"

text \<open>The arguments of the \<open>sendPacket\<close> call that opens the handshake.\<close>

definition connect_packet :: "'a externals \<Rightarrow> sendPacket_args" where
  "connect_packet ext =
     Init Connect version local_maxPayloadSize
       (''host::features='' @ connect_features ext @ [CHR '';'', CHR 0x00])"

text \<open>
  \<open>connect\<close> up to and including the \<open>sendPacket\<close> of the CONNECT packet: \<open>Inl\<close> when
  \<open>backend.connect\<close> or that \<open>sendPacket\<close> throws, with the session as it is then.
\<close>

definition connect_begin :: "'a externals \<Rightarrow> Adb \<Rightarrow> (error \<times> Adb) + Adb" where
  "connect_begin ext s =
     (case backend_connect ext of
        Some e \<Rightarrow> Inl (e, s)
      | None \<Rightarrow>
          let s1 = connect_subscribe (connect_configure s)
          in case sendPacket ext (connect_packet ext) (packetDispatcher s1) of
               Inl e \<Rightarrow> Inl (e, s1)
             | Inr d \<Rightarrow> Inr (s1\<lparr>packetDispatcher := d\<rparr>))"

text \<open>
  The \<open>try\<close> \<open>finally\<close> at the end of \<open>connect\<close>: \<open>_connected = true\<close> once the
  promise is resolved, the rejection rethrown otherwise, \<open>disposableList.dispose()\<close> in
  both cases.
\<close>

definition connect_end :: "'a handshake \<Rightarrow> outcome" where
  "connect_end h =
     (case resolver h of
        Resolved \<Rightarrow> Returned (connect_dispose ((adb h)\<lparr>connected := True\<rparr>))
      | Rejected e \<Rightarrow> Threw e (connect_dispose (adb h))
      | Pending \<Rightarrow> Awaiting (adb h))"

definition connect :: "'a externals \<Rightarrow> event list \<Rightarrow> Adb \<Rightarrow> outcome" where
  "connect ext events s =
     (case connect_begin ext s of
        Inl (e, s') \<Rightarrow> Threw e s'
      | Inr s' \<Rightarrow>
          connect_end
            (await_resolver ext events
               \<lparr>adb = s', authHandler = auth_init ext, resolver = Pending\<rparr>))"

text \<open>
  The events given to \<open>connect\<close> are those that arrive while the call waits, and they
  reach the two listeners of that call. A call that throws at its first \<open>sendPacket\<close>
  has taken no event and leaves its two listeners registered, their promise pending
  and never awaited. \<open>leaked_listeners\<close> is what they do to the session after the call:
  every later event reaches them, whether or not their promise has settled. A listener
  left registered in this way is not run by a later \<open>connect\<close> above, which gives the
  call on a session whose dispatcher holds no listener of an earlier call.
\<close>

definition leaked_listeners :: "'a externals \<Rightarrow> event list \<Rightarrow> Adb \<Rightarrow> Adb" where
  "leaked_listeners ext events s =
     adb (foldl (\<lambda>h ev. handle_event ext ev h)
            \<lparr>adb = s, authHandler = auth_init ext, resolver = Pending\<rparr> events)"

subsection \<open>The other methods\<close>

text \<open>
  \<open>createStream\<close> hands the service to the dispatcher; \<open>shell\<close>, \<open>spawn\<close>, \<open>exec\<close>,
  \<open>getProp\<close>, \<open>rm\<close>, \<open>sync\<close> and \<open>createStreamAndReadAll\<close> are built on it. What
  they return (a stream, or the text read from one) belongs to the dispatcher; the
  definitions keep the error thrown, if any, and the session.
\<close>

definition createStream :: "'a externals \<Rightarrow> string \<Rightarrow> Adb \<Rightarrow> outcome" where
  "createStream ext service s =
     (case dispatcher_createStream ext service (packetDispatcher s) of
        (Some e, d) \<Rightarrow> Threw e (s\<lparr>packetDispatcher := d\<rparr>)
      | (None, d) \<Rightarrow> Returned (s\<lparr>packetDispatcher := d\<rparr>))"

definition createStreamAndReadAll :: "'a externals \<Rightarrow> string \<Rightarrow> Adb \<Rightarrow> outcome" where
  "createStreamAndReadAll ext service s = createStream ext service s"

definition shell :: "'a externals \<Rightarrow> Adb \<Rightarrow> outcome" where
  "shell ext s = createStream ext ''shell:'' s"

definition spawn :: "'a externals \<Rightarrow> string \<Rightarrow> string list \<Rightarrow> Adb \<Rightarrow> outcome" where
  "spawn ext cmd args s = createStream ext (''shell:'' @ cmd @ '' '' @ join args '' '') s"

definition exec :: "'a externals \<Rightarrow> string \<Rightarrow> string list \<Rightarrow> Adb \<Rightarrow> outcome" where
  "exec ext cmd args s =
     createStreamAndReadAll ext (''shell:'' @ cmd @ '' '' @ join args '' '') s"

definition getProp :: "'a externals \<Rightarrow> string \<Rightarrow> Adb \<Rightarrow> outcome" where
  "getProp ext key s = exec ext ''getprop'' [key] s"

definition rm :: "'a externals \<Rightarrow> string list \<Rightarrow> Adb \<Rightarrow> outcome" where
  "rm ext filenames s = exec ext ''rm'' (''-rf'' # map (escapeArg ext) filenames) s"

text \<open>
  Modelled from the spec: \<open>install\<close>, \<open>framebuffer\<close> and the class \<open>AdbSync\<close> are
  declared in \<open>./commands\<close>, which is not among the sources. The spec: any higher-level
  service (shell exec, file sync, port reverse, install, framebuffer) is implemented
  purely in terms of \<open>createStream\<close> and the read, write and close of the streams it
  returns. So a helper given the session calls \<open>createStream\<close> on it, once for each
  service it opens, and stops at the first call that throws; the traffic of the streams
  is the dispatcher's.
\<close>

fun commands_helper :: "'a externals \<Rightarrow> string list \<Rightarrow> Adb \<Rightarrow> outcome" where
  "commands_helper ext [] s = Returned s"
| "commands_helper ext (service # services) s =
     (case createStream ext service s of
        Returned s' \<Rightarrow> commands_helper ext services s'
      | Threw e s' \<Rightarrow> Threw e s'
      | Awaiting s' \<Rightarrow> Awaiting s')"

text \<open>
  \<open>install\<close> and \<open>framebuffer\<close> hand the session to the function of their name;
  \<open>sync\<close> opens the service \<open>sync:\<close> and hands the session and the stream to the
  constructor of \<open>AdbSync\<close>. The callback \<open>onProgress\<close> is the caller's.
\<close>

definition install :: "'a externals \<Rightarrow> bytes \<Rightarrow> Adb \<Rightarrow> outcome" where
  "install ext apk s = commands_helper ext (helper_services ext (InstallHelper apk)) s"

definition framebuffer :: "'a externals \<Rightarrow> Adb \<Rightarrow> outcome" where
  "framebuffer ext s = commands_helper ext (helper_services ext FramebufferHelper) s"

definition sync :: "'a externals \<Rightarrow> Adb \<Rightarrow> outcome" where
  "sync ext s =
     (case createStream ext ''sync:'' s of
        Returned s' \<Rightarrow> commands_helper ext (helper_services ext AdbSyncConstructor) s'
      | Threw e s' \<Rightarrow> Threw e s'
      | Awaiting s' \<Rightarrow> Awaiting s')"

text \<open>
  \<open>dispose\<close>: \<open>this.packetDispatcher.dispose()\<close>, then \<open>await this.backend.dispose()\<close>,
  which may throw.
\<close>

definition dispose :: "'a externals \<Rightarrow> Adb \<Rightarrow> outcome" where
  "dispose ext s =
     (let s' = s\<lparr>packetDispatcher := dispatcher_dispose ext (packetDispatcher s)\<rparr>
      in case backend_dispose ext of
           Some e \<Rightarrow> Threw e s'
         | None \<Rightarrow> Returned s')"

text \<open>
  A call of a method of the class, and a run of calls on one session: each call starts
  from the session the one before left, whether that one returned or threw.
\<close>

datatype operation =
  OpConnect "event list"
| OpShell
| OpSpawn string "string list"
| OpExec string "string list"
| OpGetProp string
| OpRm "string list"
| OpInstall bytes
| OpFramebuffer
| OpSync
| OpCreateStream string
| OpCreateStreamAndReadAll string
| OpDispose

fun perform :: "'a externals \<Rightarrow> operation \<Rightarrow> Adb \<Rightarrow> outcome" where
  "perform ext (OpConnect events) s = connect ext events s"
| "perform ext OpShell s = shell ext s"
| "perform ext (OpSpawn cmd args) s = spawn ext cmd args s"
| "perform ext (OpExec cmd args) s = exec ext cmd args s"
| "perform ext (OpGetProp key) s = getProp ext key s"
| "perform ext (OpRm filenames) s = rm ext filenames s"
| "perform ext (OpInstall apk) s = install ext apk s"
| "perform ext OpFramebuffer s = framebuffer ext s"
| "perform ext OpSync s = sync ext s"
| "perform ext (OpCreateStream service) s = createStream ext service s"
| "perform ext (OpCreateStreamAndReadAll service) s = createStreamAndReadAll ext service s"
| "perform ext OpDispose s = dispose ext s"

fun perform_all :: "'a externals \<Rightarrow> operation list \<Rightarrow> Adb \<Rightarrow> Adb" where
  "perform_all ext [] s = s"
| "perform_all ext (op # ops) s = perform_all ext ops (session (perform ext op s))"

fun is_connect :: "operation \<Rightarrow> bool" where
  "is_connect (OpConnect events) = True"
| "is_connect _ = False"

text \<open>
  \<open>same_but_sent s s'\<close>: the session \<open>s'\<close> differs from \<open>s\<close> at most in the packets
  its dispatcher has sent.
\<close>

definition same_but_sent :: "Adb \<Rightarrow> Adb \<Rightarrow> bool" where
  "same_but_sent s s' \<longleftrightarrow>
     connected s' = connected s \<and> product s' = product s \<and> model s' = model s
     \<and> device s' = device s \<and> features s' = features s
     \<and> maxPayloadSize (packetDispatcher s') = maxPayloadSize (packetDispatcher s)
     \<and> calculateChecksum (packetDispatcher s') = calculateChecksum (packetDispatcher s)
     \<and> appendNullToServiceString (packetDispatcher s') =
         appendNullToServiceString (packetDispatcher s)
     \<and> started (packetDispatcher s') = started (packetDispatcher s)
     \<and> listeners (packetDispatcher s') = listeners (packetDispatcher s)"

text \<open>The four metadata accessors, read together.\<close>

definition metadata ::
  "Adb \<Rightarrow> string option \<times> string option \<times> string option \<times> string list option"
where
  "metadata s = (product s, model s, device s, features s)"

subsection \<open>Sample collaborators\<close>

text \<open>
  A backend whose transport accepts every packet, with an authentication handler that
  counts the challenges it has seen and answers each with an AUTH packet carrying that
  count; and the same with a transport that refuses every packet.
\<close>

definition idle_dispatcher :: AdbPacketDispatcher where
  "idle_dispatcher =
     \<lparr>maxPayloadSize = 0, calculateChecksum = False, appendNullToServiceString = False,
      started = False, listeners = [], sent = []\<rparr>"

definition sample_externals :: "nat externals" where
  "sample_externals =
     \<lparr>StatV2 = ''stat_v2'',
      backend_connect = None,
      backend_write = (\<lambda>log x. None),
      decodeUtf8 = (\<lambda>b. b),
      auth_init = 0,
      auth_next =
        (\<lambda>n p. (Inr \<lparr>command = Auth, arg0 = of_nat n, arg1 = 0, payload = payload p\<rparr>, Suc n)),
      dispatcher_createStream = (\<lambda>service d. (None, d)),
      dispatcher_dispose = (\<lambda>d. d\<lparr>started := False\<rparr>),
      backend_dispose = None,
      escapeArg = (\<lambda>arg. arg),
      helper_services =
        (\<lambda>h. case h of
           InstallHelper apk \<Rightarrow> [''sync:'', ''shell:pm install /data/local/tmp/app.apk'']
         | FramebufferHelper \<Rightarrow> [''framebuffer:'']
         | AdbSyncConstructor \<Rightarrow> [])\<rparr>"

definition broken_transport :: "nat externals" where
  "broken_transport =
     sample_externals\<lparr>backend_write := (\<lambda>log x. Some (Error ''transfer failed''))\<rparr>"

definition packet_of :: "AdbCommand \<Rightarrow> uint32 \<Rightarrow> uint32 \<Rightarrow> bytes \<Rightarrow> AdbPacket" where
  "packet_of c a0 a1 b = \<lparr>command = c, arg0 = a0, arg1 = a1, payload = b\<rparr>"

text \<open>
  Packets of the peer: a CONNECT reply of the current protocol version, one of the
  version before it, an AUTH challenge, a CLOSE and a WRITE.
\<close>

definition widget_reply :: AdbPacket where
  "widget_reply =
     packet_of Connect 0x01000001 0x40000
       ''device::ro.product.name=widget;ro.product.model=X1;features=shell_v2,cmd;''"

definition legacy_reply :: AdbPacket where
  "legacy_reply = packet_of Connect 0x01000000 0x200000 ''device::ro.product.name=gadget;''"

definition auth_challenge :: AdbPacket where
  "auth_challenge = packet_of Auth 1 0 ''token''"

definition stray_close :: AdbPacket where
  "stray_close = packet_of Close 0 7 []"

definition stray_write :: AdbPacket where
  "stray_write = packet_of Write 3 7 ''data''"

text \<open>The listeners' state on a new session, before any event.\<close>

definition pending_handshake :: "nat handshake" where
  "pending_handshake = \<lparr>adb = new_Adb idle_dispatcher, authHandler = 0, resolver = Pending\<rparr>"

section \<open>Properties\<close>

subsection \<open>Lemmas on \<open>parseBanner\<close>\<close>

lemmas AdbPropKey_defs =
  AdbPropKey_Product_def AdbPropKey_Model_def AdbPropKey_Device_def AdbPropKey_Features_def

lemma parseBanner_entries:
  "parseBanner banner s = foldl parseProp (s\<lparr>features := Some []\<rparr>) (entries banner)"
  by (simp add: parseBanner_def entries_def Let_def)

lemma split_from_absent:
  "c \<notin> set s \<Longrightarrow> split_from [c] acc s = [acc @ s]"
  by (induction s arbitrary: acc) auto

lemma split_absent: "c \<notin> set s \<Longrightarrow> split s [c] = [s]"
  by (simp add: split_def split_from_absent)

lemma parseProp_no_equals: "CHR ''='' \<notin> set prop \<Longrightarrow> parseProp s prop = s"
  by (simp add: parseProp_def split_absent)

lemma foldl_parseProp_filter:
  "foldl parseProp s (filter (\<lambda>prop. CHR ''='' \<in> set prop) props) = foldl parseProp s props"
  by (induction props arbitrary: s) (auto simp: parseProp_no_equals)

lemma parseProp_packetDispatcher: "packetDispatcher (parseProp s prop) = packetDispatcher s"
  by (simp add: parseProp_def split: list.splits)

lemma parseProp_connected: "connected (parseProp s prop) = connected s"
  by (simp add: parseProp_def split: list.splits)





lemma parseProp_features_defined:
  "features s \<noteq> None \<Longrightarrow> features (parseProp s prop) \<noteq> None"
  by (simp add: parseProp_def split: list.splits)

lemma foldl_parseProp_packetDispatcher:
  "packetDispatcher (foldl parseProp s props) = packetDispatcher s"
  by (induction props arbitrary: s) (simp_all add: parseProp_packetDispatcher)

lemma foldl_parseProp_connected:
  "connected (foldl parseProp s props) = connected s"
  by (induction props arbitrary: s) (simp_all add: parseProp_connected)





lemma foldl_parseProp_features_defined:
  "features s \<noteq> None \<Longrightarrow> features (foldl parseProp s props) \<noteq> None"
proof (induction props arbitrary: s)
  case Nil
  then show ?case by simp
next
  case (Cons p ps)
  from Cons.prems have "features (parseProp s p) \<noteq> None"
    by (rule parseProp_features_defined)
  then have "features (foldl parseProp (parseProp s p) ps) \<noteq> None"
    by (rule Cons.IH)
  then show ?case by simp
qed

lemma parseBanner_packetDispatcher:
  "packetDispatcher (parseBanner banner s) = packetDispatcher s"
  by (simp add: parseBanner_entries foldl_parseProp_packetDispatcher)

lemma parseBanner_connected: "connected (parseBanner banner s) = connected s"
  by (simp add: parseBanner_entries foldl_parseProp_connected)

subsection \<open>The sample banner, and entries without \<open>=\<close>\<close>

text \<open>
  C4. The banner \<open>device::ro.product.name=widget;ro.product.model=X1;features=shell_v2,cmd;\<close>
  sets \<open>product\<close> to \<open>widget\<close>, \<open>model\<close> to \<open>X1\<close> and \<open>features\<close> to
  \<open>[shell_v2, cmd]\<close>, and leaves every other field as it was; with the entry
  \<open>badentry\<close> added the result is the same. For every banner, the loop body leaves
  the session unchanged on an entry that has no \<open>=\<close>, so \<open>parseBanner\<close> gives what it
  gives on the entries that have one. \<open>parseBanner\<close> has no failing branch: it is a
  total function into sessions.
\<close>

theorem parseBanner_sample_and_malformed:
  "parseBanner ''device::ro.product.name=widget;ro.product.model=X1;features=shell_v2,cmd;'' s
     = s\<lparr>product := Some ''widget'', model := Some ''X1'',
          features := Some [''shell_v2'', ''cmd'']\<rparr>
   \<and> parseBanner
       ''device::ro.product.name=widget;badentry;ro.product.model=X1;features=shell_v2,cmd;'' s
     = s\<lparr>product := Some ''widget'', model := Some ''X1'',
          features := Some [''shell_v2'', ''cmd'']\<rparr>
   \<and> (CHR ''='' \<notin> set prop \<longrightarrow> parseProp s prop = s)
   \<and> parseBanner banner s =
       foldl parseProp (s\<lparr>features := Some []\<rparr>)
         (filter (\<lambda>prop. CHR ''='' \<in> set prop) (entries banner))"
proof -
  have "parseBanner ''device::ro.product.name=widget;ro.product.model=X1;features=shell_v2,cmd;'' s
     = s\<lparr>product := Some ''widget'', model := Some ''X1'',
          features := Some [''shell_v2'', ''cmd'']\<rparr>"
    by (simp add: parseBanner_def parseProp_def split_def AdbPropKey_defs)
  moreover have "parseBanner
       ''device::ro.product.name=widget;badentry;ro.product.model=X1;features=shell_v2,cmd;'' s
     = s\<lparr>product := Some ''widget'', model := Some ''X1'',
          features := Some [''shell_v2'', ''cmd'']\<rparr>"
    by (simp add: parseBanner_def parseProp_def split_def AdbPropKey_defs)
  moreover have "CHR ''='' \<notin> set prop \<longrightarrow> parseProp s prop = s"
    by (simp add: parseProp_no_equals)
  moreover have "parseBanner banner s =
       foldl parseProp (s\<lparr>features := Some []\<rparr>)
         (filter (\<lambda>prop. CHR ''='' \<in> set prop) (entries banner))"
    by (simp add: parseBanner_entries foldl_parseProp_filter)
  ultimately show ?thesis by blast
qed

text \<open>The theorem at the entry \<open>badentry\<close> and a new session.\<close>

theorem parseBanner_sample_and_malformed_witness:
  "CHR ''='' \<notin> set ''badentry''
   \<and> parseProp (new_Adb idle_dispatcher) ''badentry'' = new_Adb idle_dispatcher
   \<and> features
        (parseBanner ''device::ro.product.name=widget;ro.product.model=X1;features=shell_v2,cmd;''
          (new_Adb idle_dispatcher)) = Some [''shell_v2'', ''cmd'']"
  using parseBanner_sample_and_malformed
    [of "new_Adb idle_dispatcher" "''badentry''" "[]"]
  by simp

subsection \<open>What \<open>parseBanner\<close> resets and what it keeps\<close>



subsection \<open>\<open>dispose\<close> and the connected flag\<close>

lemma session_simps [simp]:
  "session (Returned s) = s" "session (Threw e s) = s" "session (Awaiting s) = s"
  by (simp_all add: session_def)

text \<open>
  C10. \<open>dispose\<close> does not touch \<open>_connected\<close>: whether it returns or throws, the
  \<open>connected\<close> accessor reads after it what it read before, so a session whose handshake
  completed still reads \<open>true\<close>.
\<close>

theorem dispose_keeps_connected:
  "connected (session (dispose ext s)) = connected s
   \<and> connected (session (dispose ext (s\<lparr>connected := True\<rparr>))) = True"
  by (simp add: dispose_def Let_def split: option.splits)

subsection \<open>The first parameters\<close>

lemma connect_features_text:
  "connect_features ext =
     ''shell_v2,cmd,'' @ StatV2 ext @
     '',ls_v2,fixed_push_mkdir,apex,abb,fixed_push_symlink_timestamp,abb_exec,remount_shell,track_app,sendrecv_v2,sendrecv_v2_brotli,sendrecv_v2_lz4,sendrecv_v2_zstd,sendrecv_v2_dry_run_send''"
  by (simp add: connect_features_def)

lemma connect_begin_Inr:
  "connect_begin ext s = Inr s' \<Longrightarrow>
   s' = (connect_subscribe (connect_configure s))
          \<lparr>packetDispatcher :=
             (packetDispatcher (connect_subscribe (connect_configure s)))
               \<lparr>sent := sent (packetDispatcher s) @ [connect_packet ext]\<rparr>\<rparr>"
  by (auto simp: connect_begin_def sendPacket_def Let_def connect_subscribe_def
        connect_configure_def subscribe_def start_def split: option.splits)

text \<open>
  C5, as the code has it. Once \<open>connect\<close> has sent its CONNECT packet and before any
  reply is processed, the dispatcher calculates checksums, appends the null character
  to service strings, and has \<open>maxPayloadSize = 0x1000\<close>. That is below the local maximum
  \<open>0x100000\<close> which the CONNECT packet advertises.
\<close>

theorem connect_initial_parameters:
  "connect_begin ext s = Inr s' \<Longrightarrow>
   calculateChecksum (packetDispatcher s')
   \<and> appendNullToServiceString (packetDispatcher s')
   \<and> maxPayloadSize (packetDispatcher s') = 0x1000
   \<and> maxPayloadSize (packetDispatcher s') < local_maxPayloadSize
   \<and> last (sent (packetDispatcher s')) = connect_packet ext
   \<and> connect_packet ext =
       Init Connect version local_maxPayloadSize
         (''host::features='' @ connect_features ext @ [CHR '';'', CHR 0x00])"
  by (auto dest!: connect_begin_Inr
        simp: connect_subscribe_def connect_configure_def subscribe_def start_def
          local_maxPayloadSize_def connect_packet_def)

text \<open>The theorem on a new session.\<close>

theorem connect_initial_parameters_witness:
  "connect_begin sample_externals (new_Adb idle_dispatcher) =
     Inr (session (connect sample_externals [] (new_Adb idle_dispatcher)))
   \<and> calculateChecksum
        (packetDispatcher (session (connect sample_externals [] (new_Adb idle_dispatcher))))
   \<and> appendNullToServiceString
        (packetDispatcher (session (connect sample_externals [] (new_Adb idle_dispatcher))))
   \<and> maxPayloadSize
        (packetDispatcher (session (connect sample_externals [] (new_Adb idle_dispatcher))))
       = 0x1000"
  using
    connect_initial_parameters
      [of sample_externals "new_Adb idle_dispatcher"
          "session (connect sample_externals [] (new_Adb idle_dispatcher))"]
  by (simp add: connect_def connect_begin_def connect_end_def connect_configure_def
        connect_subscribe_def sendPacket_def start_def subscribe_def Let_def
        sample_externals_def new_Adb_def idle_dispatcher_def)

text \<open>
  C5, as stated, fails: on a new session the dispatcher's \<open>maxPayloadSize\<close> after the
  CONNECT packet is sent is \<open>0x1000\<close>, not the \<open>0x100000\<close> that packet carries.
\<close>

theorem connect_initial_parameters_counterexample:
  "connect sample_externals [] (new_Adb idle_dispatcher) =
     Awaiting (session (connect sample_externals [] (new_Adb idle_dispatcher)))
   \<and> maxPayloadSize
        (packetDispatcher (session (connect sample_externals [] (new_Adb idle_dispatcher))))
       = 0x1000
   \<and> sent (packetDispatcher (session (connect sample_externals [] (new_Adb idle_dispatcher))))
       = [Init Connect version 0x100000
            (''host::features='' @ connect_features sample_externals @ [CHR '';'', CHR 0x00])]
   \<and> local_maxPayloadSize = 0x100000
   \<and> maxPayloadSize
        (packetDispatcher (session (connect sample_externals [] (new_Adb idle_dispatcher))))
       \<noteq> local_maxPayloadSize"
  by (simp add: connect_def connect_begin_def connect_end_def connect_configure_def
        connect_subscribe_def sendPacket_def start_def subscribe_def Let_def
        sample_externals_def new_Adb_def idle_dispatcher_def local_maxPayloadSize_def
        connect_packet_def)

subsection \<open>The handshake, event by event\<close>

text \<open>
  While the promise is pending, an event that does not resolve it changes nothing of the
  session but the packets sent; the event that resolves it is a CONNECT packet.
\<close>

lemma same_but_sent_refl: "same_but_sent s s"
  by (simp add: same_but_sent_def)

lemma same_but_sent_trans:
  "same_but_sent s s' \<Longrightarrow> same_but_sent s' s'' \<Longrightarrow> same_but_sent s s''"
  by (simp add: same_but_sent_def)

lemma onPacket_Connect:
  "command p = Connect \<Longrightarrow>
   onPacket_listener ext p h =
     h\<lparr>adb := parseBanner (decodeUtf8 ext (payload p))
            ((adb h)\<lparr>packetDispatcher :=
               (if versionNoChecksum \<le> min version (arg0 p)
                then (packetDispatcher (adb h))
                       \<lparr>maxPayloadSize := min local_maxPayloadSize (arg1 p),
                        calculateChecksum := False, appendNullToServiceString := False\<rparr>
                else (packetDispatcher (adb h))
                       \<lparr>maxPayloadSize := min local_maxPayloadSize (arg1 p)\<rparr>)\<rparr>),
       resolver := resolve (resolver h)\<rparr>"
  by (simp add: onPacket_listener_def Let_def)

lemma onPacket_Connect_dispatcher:
  "command p = Connect \<Longrightarrow>
   packetDispatcher (adb (onPacket_listener ext p h)) =
     (if versionNoChecksum \<le> min version (arg0 p)
      then (packetDispatcher (adb h))
             \<lparr>maxPayloadSize := min local_maxPayloadSize (arg1 p),
              calculateChecksum := False, appendNullToServiceString := False\<rparr>
      else (packetDispatcher (adb h))
             \<lparr>maxPayloadSize := min local_maxPayloadSize (arg1 p)\<rparr>)"
  by (simp add: onPacket_Connect parseBanner_packetDispatcher)

lemma handle_event_not_resolved:
  assumes "resolver h = Pending" and "resolver (handle_event ext ev h) \<noteq> Resolved"
  shows "same_but_sent (adb h) (adb (handle_event ext ev h))"
proof (cases ev)
  case (ErrorEvent e)
  then show ?thesis
    by (simp add: handle_event_def onError_listener_def same_but_sent_refl)
next
  case (PacketEvent p)
  show ?thesis
  proof (cases "command p")
    case Connect
    with assms PacketEvent show ?thesis
      by (simp add: handle_event_def onPacket_Connect resolve_def)
  next
    case Auth
    with PacketEvent show ?thesis
      by (auto simp: handle_event_def onPacket_listener_def sendPacket_def same_but_sent_def
            split: prod.splits sum.splits option.splits)
  qed (use PacketEvent in \<open>simp_all add: handle_event_def onPacket_listener_def same_but_sent_refl\<close>)
qed

lemma handle_event_resolved:
  assumes "resolver h = Pending" and "resolver (handle_event ext ev h) = Resolved"
  shows "\<exists>p. ev = PacketEvent p \<and> command p = Connect"
proof (cases ev)
  case (ErrorEvent e)
  with assms show ?thesis
    by (simp add: handle_event_def onError_listener_def reject_def)
next
  case (PacketEvent p)
  with assms show ?thesis
    by (cases "command p")
      (auto simp: handle_event_def onPacket_listener_def reject_def sendPacket_def
         split: prod.splits sum.splits option.splits)
qed

lemma await_resolver_settled:
  "resolver h \<noteq> Pending \<Longrightarrow> await_resolver ext evs h = h"
  by (cases evs) simp_all

lemma await_resolver_not_resolved:
  "resolver h = Pending \<Longrightarrow> resolver (await_resolver ext evs h) \<noteq> Resolved \<Longrightarrow>
   same_but_sent (adb h) (adb (await_resolver ext evs h))"
proof (induction evs arbitrary: h)
  case Nil
  then show ?case by (simp add: same_but_sent_refl)
next
  case (Cons ev evs)
  let ?h1 = "handle_event ext ev h"
  show ?case
  proof (cases "resolver ?h1 = Pending")
    case True
    from Cons.prems have "resolver (await_resolver ext evs ?h1) \<noteq> Resolved" by simp
    with True have "same_but_sent (adb ?h1) (adb (await_resolver ext evs ?h1))"
      by (rule Cons.IH)
    moreover from Cons.prems(1) True have "same_but_sent (adb h) (adb ?h1)"
      by (intro handle_event_not_resolved) simp_all
    ultimately show ?thesis
      using Cons.prems(1) by (simp add: same_but_sent_trans)
  next
    case False
    then have fin: "await_resolver ext (ev # evs) h = ?h1"
      using Cons.prems(1) by (simp add: await_resolver_settled)
    with Cons.prems show ?thesis
      by (simp add: handle_event_not_resolved)
  qed
qed

lemma await_resolver_resolved:
  "resolver h = Pending \<Longrightarrow> resolver (await_resolver ext evs h) = Resolved \<Longrightarrow>
   \<exists>p hp. PacketEvent p \<in> set evs \<and> command p = Connect \<and> resolver hp = Pending
     \<and> same_but_sent (adb h) (adb hp)
     \<and> await_resolver ext evs h = onPacket_listener ext p hp"
proof (induction evs arbitrary: h)
  case Nil
  then show ?case by simp
next
  case (Cons ev evs)
  let ?h1 = "handle_event ext ev h"
  show ?case
  proof (cases "resolver ?h1 = Pending")
    case True
    from Cons.prems have "resolver (await_resolver ext evs ?h1) = Resolved" by simp
    with True obtain p hp where
      p: "PacketEvent p \<in> set evs" "command p = Connect" "resolver hp = Pending"
        "same_but_sent (adb ?h1) (adb hp)"
        "await_resolver ext evs ?h1 = onPacket_listener ext p hp"
      using Cons.IH by blast
    from Cons.prems(1) True have "same_but_sent (adb h) (adb ?h1)"
      by (intro handle_event_not_resolved) simp_all
    with p(4) have "same_but_sent (adb h) (adb hp)"
      by (rule same_but_sent_trans [rotated])
    with p Cons.prems(1) show ?thesis
      by (intro exI [of _ p] exI [of _ hp]) simp
  next
    case False
    then have fin: "await_resolver ext (ev # evs) h = ?h1"
      using Cons.prems(1) by (simp add: await_resolver_settled)
    with Cons.prems(2) have "resolver ?h1 = Resolved" by simp
    with Cons.prems(1) obtain p where "ev = PacketEvent p" "command p = Connect"
      using handle_event_resolved by blast
    with fin Cons.prems(1) show ?thesis
      by (intro exI [of _ p] exI [of _ h]) (simp add: handle_event_def same_but_sent_refl)
  qed
qed

lemma connect_Returned:
  assumes "connect ext evs s = Returned s'"
  obtains s1 p hp where
    "connect_begin ext s = Inr s1" "PacketEvent p \<in> set evs" "command p = Connect"
    "resolver hp = Pending" "same_but_sent s1 (adb hp)"
    "s' = connect_dispose ((adb (onPacket_listener ext p hp))\<lparr>connected := True\<rparr>)"
proof -
  from assms obtain s1 where s1: "connect_begin ext s = Inr s1"
    by (auto simp: connect_def split: sum.splits prod.splits)
  let ?init = "\<lparr>adb = s1, authHandler = auth_init ext, resolver = Pending\<rparr>"
  let ?h = "await_resolver ext evs ?init"
  from assms s1 have "connect_end ?h = Returned s'"
    by (simp add: connect_def)
  then have res: "resolver ?h = Resolved"
    and s': "s' = connect_dispose ((adb ?h)\<lparr>connected := True\<rparr>)"
    by (auto simp: connect_end_def split: promise.splits)
  have "resolver ?init = Pending" by simp
  from await_resolver_resolved [OF this res] obtain p hp where
    "PacketEvent p \<in> set evs" "command p = Connect" "resolver hp = Pending"
    "same_but_sent (adb ?init) (adb hp)" "?h = onPacket_listener ext p hp"
    by blast
  with s1 s' that show thesis by simp
qed


subsection \<open>What the CONNECT reply negotiates\<close>

lemmas sample_defs =
  sample_externals_def broken_transport_def idle_dispatcher_def new_Adb_def packet_of_def
  widget_reply_def legacy_reply_def auth_challenge_def stray_close_def stray_write_def
  pending_handshake_def

lemmas connect_defs =
  connect_def connect_begin_def connect_end_def connect_configure_def connect_subscribe_def
  connect_dispose_def connect_packet_def sendPacket_def start_def subscribe_def
  disposableList_dispose_def handle_event_def onPacket_listener_def onError_listener_def
  resolve_def reject_def

lemma connect_dispose_dispatcher:
  "maxPayloadSize (packetDispatcher (connect_dispose s)) = maxPayloadSize (packetDispatcher s)"
  "calculateChecksum (packetDispatcher (connect_dispose s)) = calculateChecksum (packetDispatcher s)"
  "appendNullToServiceString (packetDispatcher (connect_dispose s)) =
     appendNullToServiceString (packetDispatcher s)"
  by (simp_all add: connect_dispose_def disposableList_dispose_def)

text \<open>
  C2. The listener, given a CONNECT reply, leaves the dispatcher's \<open>maxPayloadSize\<close> at
  the minimum of the local maximum and the reply's \<open>arg1\<close>, whatever \<open>arg1\<close> is; and
  when \<open>connect\<close> returns, the session has that minimum for a CONNECT reply among the
  events it was given.
\<close>

theorem negotiated_maxPayloadSize:
  "(command p = Connect \<longrightarrow>
      maxPayloadSize (packetDispatcher (adb (onPacket_listener ext p h))) =
        min local_maxPayloadSize (arg1 p))
   \<and> (connect ext evs s = Returned s' \<longrightarrow>
        (\<exists>q. PacketEvent q \<in> set evs \<and> command q = Connect
           \<and> maxPayloadSize (packetDispatcher s') = min local_maxPayloadSize (arg1 q)))"
proof (intro conjI impI)
  assume "command p = Connect"
  then show "maxPayloadSize (packetDispatcher (adb (onPacket_listener ext p h))) =
      min local_maxPayloadSize (arg1 p)"
    by (simp add: onPacket_Connect_dispatcher)
next
  assume "connect ext evs s = Returned s'"
  then obtain s1 q hp where q: "PacketEvent q \<in> set evs" "command q = Connect"
    and s': "s' = connect_dispose ((adb (onPacket_listener ext q hp))\<lparr>connected := True\<rparr>)"
    by (rule connect_Returned)
  from q(2) have "maxPayloadSize (packetDispatcher s') = min local_maxPayloadSize (arg1 q)"
    by (simp add: s' connect_dispose_dispatcher onPacket_Connect_dispatcher)
  with q show "\<exists>q. PacketEvent q \<in> set evs \<and> command q = Connect
      \<and> maxPayloadSize (packetDispatcher s') = min local_maxPayloadSize (arg1 q)"
    by blast
qed

text \<open>Two handshakes on a new session, each answered with a CONNECT reply at once.\<close>

lemma connect_widget_reply:
  "connect sample_externals [PacketEvent widget_reply] (new_Adb idle_dispatcher) =
     Returned
       \<lparr>packetDispatcher =
          \<lparr>maxPayloadSize = 0x40000, calculateChecksum = False,
           appendNullToServiceString = False, started = True, listeners = [],
           sent = [connect_packet sample_externals]\<rparr>,
        connected = True, product = Some ''widget'', model = Some ''X1'', device = None,
        features = Some [''shell_v2'', ''cmd'']\<rparr>"
  by (simp add: connect_defs sample_defs Let_def version_def versionNoChecksum_def
        local_maxPayloadSize_def parseBanner_def parseProp_def split_def AdbPropKey_defs)

lemma connect_legacy_reply:
  "connect sample_externals [PacketEvent legacy_reply] (new_Adb idle_dispatcher) =
     Returned
       \<lparr>packetDispatcher =
          \<lparr>maxPayloadSize = 0x100000, calculateChecksum = True,
           appendNullToServiceString = True, started = True, listeners = [],
           sent = [connect_packet sample_externals]\<rparr>,
        connected = True, product = Some ''gadget'', model = None, device = None,
        features = Some []\<rparr>"
  by (simp add: connect_defs sample_defs Let_def version_def versionNoChecksum_def
        local_maxPayloadSize_def parseBanner_def parseProp_def split_def AdbPropKey_defs)


text \<open>
  The theorem at a reply that advertises more than the local maximum, and at a handshake
  whose reply advertises less.
\<close>

theorem negotiated_maxPayloadSize_witness:
  "command legacy_reply = Connect \<and> arg1 legacy_reply = 0x200000
   \<and> maxPayloadSize
        (packetDispatcher (adb (onPacket_listener sample_externals legacy_reply pending_handshake)))
       = 0x100000
   \<and> connect sample_externals [PacketEvent widget_reply] (new_Adb idle_dispatcher) =
       Returned
         (session (connect sample_externals [PacketEvent widget_reply] (new_Adb idle_dispatcher)))
   \<and> arg1 widget_reply = 0x40000
   \<and> maxPayloadSize
        (packetDispatcher
           (session
              (connect sample_externals [PacketEvent widget_reply] (new_Adb idle_dispatcher))))
       = 0x40000"
  using
    negotiated_maxPayloadSize
      [of legacy_reply sample_externals pending_handshake
          "[PacketEvent widget_reply]" "new_Adb idle_dispatcher"
          "session (connect sample_externals [PacketEvent widget_reply] (new_Adb idle_dispatcher))"]
    connect_widget_reply
  by (simp add: legacy_reply_def widget_reply_def packet_of_def local_maxPayloadSize_def)

lemma version_check: "versionNoChecksum \<le> min version v \<longleftrightarrow> 0x01000001 \<le> v"
  by (simp add: version_def versionNoChecksum_def)

text \<open>
  C3. The listener, given a CONNECT reply whose version \<open>arg0\<close> has
  \<open>min version arg0 \<ge> versionNoChecksum\<close>, switches both checksum calculation and the
  null character after service strings off; otherwise it leaves both as they were.
  When \<open>connect\<close> returns, both are off in the first case and both are on, as
  \<open>connect\<close> set them at its start, in the second. With the two constants equal the
  test is \<open>arg0 \<ge> 0x01000001\<close>.
\<close>

theorem negotiated_checksum:
  "(command p = Connect \<longrightarrow>
      (if min version (arg0 p) \<ge> versionNoChecksum
       then \<not> calculateChecksum (packetDispatcher (adb (onPacket_listener ext p h)))
          \<and> \<not> appendNullToServiceString (packetDispatcher (adb (onPacket_listener ext p h)))
       else calculateChecksum (packetDispatcher (adb (onPacket_listener ext p h))) =
              calculateChecksum (packetDispatcher (adb h))
          \<and> appendNullToServiceString (packetDispatcher (adb (onPacket_listener ext p h))) =
              appendNullToServiceString (packetDispatcher (adb h))))
   \<and> (connect ext evs s = Returned s' \<longrightarrow>
        (\<exists>q. PacketEvent q \<in> set evs \<and> command q = Connect
           \<and> (if min version (arg0 q) \<ge> versionNoChecksum
               then \<not> calculateChecksum (packetDispatcher s')
                  \<and> \<not> appendNullToServiceString (packetDispatcher s')
               else calculateChecksum (packetDispatcher s')
                  \<and> appendNullToServiceString (packetDispatcher s'))))
   \<and> (min version v \<ge> versionNoChecksum \<longleftrightarrow> v \<ge> 0x01000001)"
proof (intro conjI impI)
  assume "command p = Connect"
  then show "if min version (arg0 p) \<ge> versionNoChecksum
       then \<not> calculateChecksum (packetDispatcher (adb (onPacket_listener ext p h)))
          \<and> \<not> appendNullToServiceString (packetDispatcher (adb (onPacket_listener ext p h)))
       else calculateChecksum (packetDispatcher (adb (onPacket_listener ext p h))) =
              calculateChecksum (packetDispatcher (adb h))
          \<and> appendNullToServiceString (packetDispatcher (adb (onPacket_listener ext p h))) =
              appendNullToServiceString (packetDispatcher (adb h))"
    by (simp add: onPacket_Connect_dispatcher)
next
  assume "connect ext evs s = Returned s'"
  then obtain s1 q hp where s1: "connect_begin ext s = Inr s1"
    and q: "PacketEvent q \<in> set evs" "command q = Connect"
    and hp: "same_but_sent s1 (adb hp)"
    and s': "s' = connect_dispose ((adb (onPacket_listener ext q hp))\<lparr>connected := True\<rparr>)"
    by (rule connect_Returned)
  from s1 have "calculateChecksum (packetDispatcher s1)"
    and "appendNullToServiceString (packetDispatcher s1)"
    by (auto dest!: connect_begin_Inr
          simp: connect_subscribe_def connect_configure_def subscribe_def start_def)
  with hp have enabled: "calculateChecksum (packetDispatcher (adb hp))"
    "appendNullToServiceString (packetDispatcher (adb hp))"
    by (simp_all add: same_but_sent_def)
  from q(2) enabled have "if min version (arg0 q) \<ge> versionNoChecksum
       then \<not> calculateChecksum (packetDispatcher s')
          \<and> \<not> appendNullToServiceString (packetDispatcher s')
       else calculateChecksum (packetDispatcher s')
          \<and> appendNullToServiceString (packetDispatcher s')"
    by (simp add: s' connect_dispose_dispatcher onPacket_Connect_dispatcher)
  with q show "\<exists>q. PacketEvent q \<in> set evs \<and> command q = Connect
           \<and> (if min version (arg0 q) \<ge> versionNoChecksum
               then \<not> calculateChecksum (packetDispatcher s')
                  \<and> \<not> appendNullToServiceString (packetDispatcher s')
               else calculateChecksum (packetDispatcher s')
                  \<and> appendNullToServiceString (packetDispatcher s'))"
    by blast
next
  show "(min version v \<ge> versionNoChecksum) = (v \<ge> 0x01000001)"
    by (rule version_check)
qed

text \<open>
  The theorem at a reply of the current version, and at a handshake whose reply has the
  version before it.
\<close>

theorem negotiated_checksum_witness:
  "command widget_reply = Connect \<and> arg0 widget_reply = 0x01000001
   \<and> \<not> calculateChecksum
         (packetDispatcher
            (adb (onPacket_listener sample_externals widget_reply
                   (pending_handshake\<lparr>adb := connect_configure (new_Adb idle_dispatcher)\<rparr>))))
   \<and> \<not> appendNullToServiceString
         (packetDispatcher
            (adb (onPacket_listener sample_externals widget_reply
                   (pending_handshake\<lparr>adb := connect_configure (new_Adb idle_dispatcher)\<rparr>))))
   \<and> connect sample_externals [PacketEvent legacy_reply] (new_Adb idle_dispatcher) =
       Returned
         (session (connect sample_externals [PacketEvent legacy_reply] (new_Adb idle_dispatcher)))
   \<and> arg0 legacy_reply = 0x01000000
   \<and> calculateChecksum
        (packetDispatcher
           (session
              (connect sample_externals [PacketEvent legacy_reply] (new_Adb idle_dispatcher))))
   \<and> appendNullToServiceString
        (packetDispatcher
           (session
              (connect sample_externals [PacketEvent legacy_reply] (new_Adb idle_dispatcher))))"
  using
    negotiated_checksum
      [of widget_reply sample_externals
          "pending_handshake\<lparr>adb := connect_configure (new_Adb idle_dispatcher)\<rparr>"
          "[PacketEvent legacy_reply]" "new_Adb idle_dispatcher"
          "session (connect sample_externals [PacketEvent legacy_reply] (new_Adb idle_dispatcher))"]
    connect_legacy_reply
  by (simp add: widget_reply_def legacy_reply_def packet_of_def version_def
        versionNoChecksum_def)

subsection \<open>The CONNECT packet\<close>

lemma handle_event_sent:
  "\<exists>rest. sent (packetDispatcher (adb (handle_event ext ev h))) =
     sent (packetDispatcher (adb h)) @ rest"
proof (cases ev)
  case (ErrorEvent e)
  then show ?thesis
    by (simp add: handle_event_def onError_listener_def)
next
  case (PacketEvent p)
  show ?thesis
  proof (cases "command p")
    case Connect
    with PacketEvent show ?thesis
      by (simp add: handle_event_def onPacket_Connect_dispatcher)
  next
    case Auth
    with PacketEvent show ?thesis
      by (auto simp: handle_event_def onPacket_listener_def sendPacket_def
            split: prod.splits sum.splits option.splits)
  qed (use PacketEvent in \<open>simp_all add: handle_event_def onPacket_listener_def\<close>)
qed

lemma await_resolver_sent:
  "\<exists>rest. sent (packetDispatcher (adb (await_resolver ext evs h))) =
     sent (packetDispatcher (adb h)) @ rest"
proof (induction evs arbitrary: h)
  case Nil
  then show ?case by simp
next
  case (Cons ev evs)
  show ?case
  proof (cases "resolver h = Pending")
    case True
    obtain r1 where r1: "sent (packetDispatcher (adb (handle_event ext ev h))) =
        sent (packetDispatcher (adb h)) @ r1"
      using handle_event_sent by blast
    obtain r2 where "sent (packetDispatcher (adb (await_resolver ext evs (handle_event ext ev h)))) =
        sent (packetDispatcher (adb (handle_event ext ev h))) @ r2"
      using Cons.IH by blast
    with r1 True show ?thesis by simp
  next
    case False
    then show ?thesis by simp
  qed
qed

lemma connect_end_sent:
  "sent (packetDispatcher (session (connect_end h))) = sent (packetDispatcher (adb h))"
  by (simp add: connect_end_def connect_dispose_def disposableList_dispose_def
        split: promise.splits)

lemma connect_begin_accepts:
  "backend_connect ext = None \<Longrightarrow>
   backend_write ext (sent (packetDispatcher s)) (connect_packet ext) = None \<Longrightarrow>
   \<exists>s1. connect_begin ext s = Inr s1
     \<and> sent (packetDispatcher s1) = sent (packetDispatcher s) @ [connect_packet ext]"
  by (simp add: connect_begin_def sendPacket_def Let_def connect_subscribe_def
        connect_configure_def subscribe_def start_def)

text \<open>
  C7. The packet \<open>connect\<close> sends is a CONNECT packet with the local protocol version
  \<open>0x01000001\<close> as \<open>arg0\<close>, the local maximum payload size \<open>0x100000\<close> as \<open>arg1\<close>, and
  the service string \<open>host::features=\<close>, the sixteen feature names of the fixed list
  joined by commas, \<open>;\<close> and a null character. When \<open>backend.connect\<close> and the
  transport accept, \<open>connect\<close> waits with exactly that packet added to those the
  dispatcher had sent, and whatever events follow, that packet is the first the call
  adds.
\<close>

theorem connect_packet_contents:
  "connect_packet ext =
     Init Connect 0x01000001 0x100000
       (''host::features=shell_v2,cmd,'' @ StatV2 ext @
        '',ls_v2,fixed_push_mkdir,apex,abb,fixed_push_symlink_timestamp,abb_exec,remount_shell,track_app,sendrecv_v2,sendrecv_v2_brotli,sendrecv_v2_lz4,sendrecv_v2_zstd,sendrecv_v2_dry_run_send;''
        @ [CHR 0x00])
   \<and> (connect_begin ext s = Inr s' \<longrightarrow>
        sent (packetDispatcher s') = sent (packetDispatcher s) @ [connect_packet ext])
   \<and> (backend_connect ext = None
        \<and> backend_write ext (sent (packetDispatcher s)) (connect_packet ext) = None \<longrightarrow>
        (\<exists>s1. connect ext [] s = Awaiting s1
           \<and> sent (packetDispatcher s1) = sent (packetDispatcher s) @ [connect_packet ext])
        \<and> (\<exists>rest. sent (packetDispatcher (session (connect ext evs s))) =
              sent (packetDispatcher s) @ connect_packet ext # rest))"
proof (intro conjI impI)
  show "connect_packet ext =
     Init Connect 0x01000001 0x100000
       (''host::features=shell_v2,cmd,'' @ StatV2 ext @
        '',ls_v2,fixed_push_mkdir,apex,abb,fixed_push_symlink_timestamp,abb_exec,remount_shell,track_app,sendrecv_v2,sendrecv_v2_brotli,sendrecv_v2_lz4,sendrecv_v2_zstd,sendrecv_v2_dry_run_send;''
        @ [CHR 0x00])"
    by (simp add: connect_packet_def connect_features_text version_def local_maxPayloadSize_def)
next
  assume "connect_begin ext s = Inr s'"
  then show "sent (packetDispatcher s') = sent (packetDispatcher s) @ [connect_packet ext]"
    by (auto dest!: connect_begin_Inr)
next
  assume accepts: "backend_connect ext = None
      \<and> backend_write ext (sent (packetDispatcher s)) (connect_packet ext) = None"
  then obtain s1 where s1: "connect_begin ext s = Inr s1"
    and sent1: "sent (packetDispatcher s1) = sent (packetDispatcher s) @ [connect_packet ext]"
    using connect_begin_accepts by blast
  from s1 have "connect ext [] s = Awaiting s1"
    by (simp add: connect_def connect_end_def)
  with sent1 show "\<exists>s1. connect ext [] s = Awaiting s1
      \<and> sent (packetDispatcher s1) = sent (packetDispatcher s) @ [connect_packet ext]"
    by blast
  let ?h = "await_resolver ext evs \<lparr>adb = s1, authHandler = auth_init ext, resolver = Pending\<rparr>"
  obtain rest where "sent (packetDispatcher (adb ?h)) = sent (packetDispatcher s1) @ rest"
    using await_resolver_sent
      [of ext evs "\<lparr>adb = s1, authHandler = auth_init ext, resolver = Pending\<rparr>"]
    by auto
  with s1 sent1 have "sent (packetDispatcher (session (connect ext evs s))) =
      sent (packetDispatcher s) @ connect_packet ext # rest"
    by (simp add: connect_def connect_end_sent)
  then show "\<exists>rest. sent (packetDispatcher (session (connect ext evs s))) =
      sent (packetDispatcher s) @ connect_packet ext # rest"
    by blast
qed

text \<open>
  The theorem on a new session, with \<open>stat_v2\<close> for \<open>AdbFeatures.StatV2\<close>: waiting, and
  after an AUTH challenge and a CONNECT reply.
\<close>

theorem connect_packet_contents_witness:
  "backend_connect sample_externals = None
   \<and> backend_write sample_externals (sent (packetDispatcher (new_Adb idle_dispatcher)))
        (connect_packet sample_externals) = None
   \<and> connect_packet sample_externals =
       Init Connect 0x01000001 0x100000
         (''host::features=shell_v2,cmd,stat_v2,ls_v2,fixed_push_mkdir,apex,abb,fixed_push_symlink_timestamp,abb_exec,remount_shell,track_app,sendrecv_v2,sendrecv_v2_brotli,sendrecv_v2_lz4,sendrecv_v2_zstd,sendrecv_v2_dry_run_send;''
          @ [CHR 0x00])
   \<and> connect sample_externals [] (new_Adb idle_dispatcher) =
       Awaiting (session (connect sample_externals [] (new_Adb idle_dispatcher)))
   \<and> sent (packetDispatcher (session (connect sample_externals [] (new_Adb idle_dispatcher))))
       = [connect_packet sample_externals]
   \<and> sent
        (packetDispatcher
           (session
              (connect sample_externals [PacketEvent auth_challenge, PacketEvent widget_reply]
                 (new_Adb idle_dispatcher))))
       = [connect_packet sample_externals,
          Packet \<lparr>command = Auth, arg0 = 0, arg1 = 0, payload = ''token''\<rparr>]"
proof -
  have accepts: "backend_connect sample_externals = None
      \<and> backend_write sample_externals (sent (packetDispatcher (new_Adb idle_dispatcher)))
           (connect_packet sample_externals) = None"
    by (simp add: sample_externals_def)
  have sent0: "sent (packetDispatcher (new_Adb idle_dispatcher)) = []"
    by (simp add: new_Adb_def idle_dispatcher_def)
  have waiting: "connect sample_externals [] (new_Adb idle_dispatcher) =
      Awaiting (session (connect sample_externals [] (new_Adb idle_dispatcher)))
    \<and> sent (packetDispatcher (session (connect sample_externals [] (new_Adb idle_dispatcher))))
       = [connect_packet sample_externals]"
    by (simp add: connect_def connect_begin_def connect_end_def connect_configure_def
          connect_subscribe_def sendPacket_def start_def subscribe_def Let_def
          sample_externals_def new_Adb_def idle_dispatcher_def)
  have run: "sent
        (packetDispatcher
           (session
              (connect sample_externals [PacketEvent auth_challenge, PacketEvent widget_reply]
                 (new_Adb idle_dispatcher))))
       = [connect_packet sample_externals,
          Packet \<lparr>command = Auth, arg0 = 0, arg1 = 0, payload = ''token''\<rparr>]"
    by (simp add: connect_def connect_begin_def connect_end_def connect_configure_def
          connect_subscribe_def connect_dispose_def sendPacket_def start_def subscribe_def
          disposableList_dispose_def handle_event_def onPacket_listener_def resolve_def
          parseBanner_packetDispatcher Let_def sample_defs)
  have contents: "connect_packet sample_externals =
       Init Connect 0x01000001 0x100000
         (''host::features=shell_v2,cmd,stat_v2,ls_v2,fixed_push_mkdir,apex,abb,fixed_push_symlink_timestamp,abb_exec,remount_shell,track_app,sendrecv_v2,sendrecv_v2_brotli,sendrecv_v2_lz4,sendrecv_v2_zstd,sendrecv_v2_dry_run_send;''
          @ [CHR 0x00])"
    using
      connect_packet_contents
        [of sample_externals "new_Adb idle_dispatcher"
            "session (connect sample_externals [] (new_Adb idle_dispatcher))"
            "[PacketEvent auth_challenge, PacketEvent widget_reply]"]
    by (simp add: sample_externals_def)
  from accepts waiting run contents show ?thesis
    by (intro conjI) simp_all
qed

subsection \<open>The listener, command by command\<close>

text \<open>
  C1. With the promise pending, the listener on a packet:
  \<^item> CONNECT: resolves the promise, and \<open>connect\<close> returns with the session connected;
  \<^item> AUTH: gives the packet to the authentication handler; the packet the handler
    returns goes to \<open>sendPacket\<close> and, accepted by the transport, is added to the packets
    sent, with the promise still pending; an error thrown by the handler or by
    \<open>sendPacket\<close> rejects the promise;
  \<^item> CLOSE: changes nothing, and \<open>connect\<close> ends as it does without that packet;
  \<^item> any other command: rejects the promise with the error \<open>Device not in correct
    state. Reconnect your device and try again\<close>, which \<open>connect\<close> throws.
\<close>

theorem handshake_packet_cases:
  assumes "resolver h = Pending"
  shows
    "(command p = Connect \<longrightarrow> resolver (onPacket_listener ext p h) = Resolved)
     \<and> (command p = Auth \<and> auth_next ext (authHandler h) p = (Inr q, a')
          \<and> backend_write ext (sent (packetDispatcher (adb h))) (Packet q) = None \<longrightarrow>
          onPacket_listener ext p h =
            h\<lparr>adb := (adb h)\<lparr>packetDispatcher :=
                   (packetDispatcher (adb h))
                     \<lparr>sent := sent (packetDispatcher (adb h)) @ [Packet q]\<rparr>\<rparr>,
              authHandler := a'\<rparr>)
     \<and> (command p = Auth \<and> auth_next ext (authHandler h) p = (Inr q, a')
          \<and> backend_write ext (sent (packetDispatcher (adb h))) (Packet q) = Some e \<longrightarrow>
          onPacket_listener ext p h = h\<lparr>authHandler := a', resolver := Rejected e\<rparr>)
     \<and> (command p = Auth \<and> auth_next ext (authHandler h) p = (Inl e, a') \<longrightarrow>
          onPacket_listener ext p h = h\<lparr>authHandler := a', resolver := Rejected e\<rparr>)
     \<and> (command p = Close \<longrightarrow> onPacket_listener ext p h = h)
     \<and> (command p \<notin> {Connect, Auth, Close} \<longrightarrow>
          onPacket_listener ext p h = h\<lparr>resolver := Rejected DeviceNotInCorrectState\<rparr>)
     \<and> DeviceNotInCorrectState =
          Error ''Device not in correct state. Reconnect your device and try again''
     \<and> (command p = Connect \<and> connect_begin ext s = Inr s1 \<longrightarrow>
          (\<exists>s'. connect ext (PacketEvent p # evs) s = Returned s' \<and> connected s'))
     \<and> (command p = Close \<longrightarrow> connect ext (PacketEvent p # evs) s = connect ext evs s)
     \<and> (command p \<notin> {Connect, Auth, Close} \<and> connect_begin ext s = Inr s1 \<longrightarrow>
          connect ext (PacketEvent p # evs) s =
            Threw DeviceNotInCorrectState (connect_dispose s1))"
proof -
  have c: "command p = Connect \<longrightarrow> resolver (onPacket_listener ext p h) = Resolved"
    using assms by (simp add: onPacket_Connect resolve_def)
  have a1: "command p = Auth \<and> auth_next ext (authHandler h) p = (Inr q, a')
          \<and> backend_write ext (sent (packetDispatcher (adb h))) (Packet q) = None \<longrightarrow>
          onPacket_listener ext p h =
            h\<lparr>adb := (adb h)\<lparr>packetDispatcher :=
                   (packetDispatcher (adb h))
                     \<lparr>sent := sent (packetDispatcher (adb h)) @ [Packet q]\<rparr>\<rparr>,
              authHandler := a'\<rparr>"
    by (simp add: onPacket_listener_def sendPacket_def)
  have a2: "command p = Auth \<and> auth_next ext (authHandler h) p = (Inr q, a')
          \<and> backend_write ext (sent (packetDispatcher (adb h))) (Packet q) = Some e \<longrightarrow>
          onPacket_listener ext p h = h\<lparr>authHandler := a', resolver := Rejected e\<rparr>"
    using assms by (simp add: onPacket_listener_def sendPacket_def reject_def)
  have a3: "command p = Auth \<and> auth_next ext (authHandler h) p = (Inl e, a') \<longrightarrow>
          onPacket_listener ext p h = h\<lparr>authHandler := a', resolver := Rejected e\<rparr>"
    using assms by (simp add: onPacket_listener_def reject_def)
  have cl: "command p = Close \<longrightarrow> onPacket_listener ext p h = h"
    by (simp add: onPacket_listener_def)
  have ot: "command p \<notin> {Connect, Auth, Close} \<longrightarrow>
          onPacket_listener ext p h = h\<lparr>resolver := Rejected DeviceNotInCorrectState\<rparr>"
    using assms by (cases "command p") (simp_all add: onPacket_listener_def reject_def)
  have msg: "DeviceNotInCorrectState =
          Error ''Device not in correct state. Reconnect your device and try again''"
    by (simp add: DeviceNotInCorrectState_def)
  have cc: "command p = Connect \<and> connect_begin ext s = Inr s1 \<longrightarrow>
          (\<exists>s'. connect ext (PacketEvent p # evs) s = Returned s' \<and> connected s')"
    by (simp add: connect_def handle_event_def onPacket_Connect resolve_def
          await_resolver_settled connect_end_def connect_dispose_def)
  have ccl: "command p = Close \<longrightarrow> connect ext (PacketEvent p # evs) s = connect ext evs s"
    by (simp add: connect_def handle_event_def onPacket_listener_def
          split: sum.splits prod.splits)
  have cot: "command p \<notin> {Connect, Auth, Close} \<and> connect_begin ext s = Inr s1 \<longrightarrow>
          connect ext (PacketEvent p # evs) s =
            Threw DeviceNotInCorrectState (connect_dispose s1)"
    by (cases "command p")
      (simp_all add: connect_def handle_event_def onPacket_listener_def reject_def
         await_resolver_settled connect_end_def)
  from c a1 a2 a3 cl ot msg cc ccl cot show ?thesis
    by (intro conjI)
qed


text \<open>The theorem at a packet of each kind, on a new session.\<close>

theorem handshake_packet_cases_witness:
  "resolver pending_handshake = Pending
   \<and> resolver (onPacket_listener sample_externals widget_reply pending_handshake) = Resolved
   \<and> onPacket_listener sample_externals auth_challenge pending_handshake =
       pending_handshake
         \<lparr>adb := (new_Adb idle_dispatcher)
            \<lparr>packetDispatcher :=
               idle_dispatcher
                 \<lparr>sent := [Packet \<lparr>command = Auth, arg0 = 0, arg1 = 0, payload = ''token''\<rparr>]\<rparr>\<rparr>,
          authHandler := 1\<rparr>
   \<and> onPacket_listener sample_externals stray_close pending_handshake = pending_handshake
   \<and> onPacket_listener sample_externals stray_write pending_handshake =
       pending_handshake\<lparr>resolver := Rejected DeviceNotInCorrectState\<rparr>
   \<and> connect sample_externals [PacketEvent stray_write, PacketEvent widget_reply]
         (new_Adb idle_dispatcher) =
       Threw DeviceNotInCorrectState
         (connect_dispose
            (session (connect sample_externals [] (new_Adb idle_dispatcher))))
   \<and> connect sample_externals [PacketEvent stray_close, PacketEvent widget_reply]
         (new_Adb idle_dispatcher) =
       connect sample_externals [PacketEvent widget_reply] (new_Adb idle_dispatcher)"
proof -
  have pending: "resolver pending_handshake = Pending"
    by (simp add: pending_handshake_def)
  have sent_ok: "connect_begin sample_externals (new_Adb idle_dispatcher) =
      Inr (session (connect sample_externals [] (new_Adb idle_dispatcher)))"
    by (simp add: connect_defs sample_defs Let_def session_def)
  have "command widget_reply = Connect" "command stray_close = Close"
    "command stray_write \<notin> {Connect, Auth, Close}"
    "command auth_challenge = Auth
     \<and> auth_next sample_externals (authHandler pending_handshake) auth_challenge =
         (Inr \<lparr>command = Auth, arg0 = 0, arg1 = 0, payload = ''token''\<rparr>, 1)
     \<and> backend_write sample_externals (sent (packetDispatcher (adb pending_handshake)))
         (Packet \<lparr>command = Auth, arg0 = 0, arg1 = 0, payload = ''token''\<rparr>) = None"
    by (simp_all add: sample_defs)
  with pending sent_ok
    handshake_packet_cases [OF pending, of widget_reply sample_externals]
    handshake_packet_cases [OF pending, of auth_challenge sample_externals
      "\<lparr>command = Auth, arg0 = 0, arg1 = 0, payload = ''token''\<rparr>" 1]
    handshake_packet_cases [OF pending, of stray_close sample_externals _ _ _
      "new_Adb idle_dispatcher" _ "[PacketEvent widget_reply]"]
    handshake_packet_cases [OF pending, of stray_write sample_externals _ _ _
      "new_Adb idle_dispatcher"
      "session (connect sample_externals [] (new_Adb idle_dispatcher))"
      "[PacketEvent widget_reply]"]
  show ?thesis
    by (simp add: pending_handshake_def new_Adb_def idle_dispatcher_def)
qed

subsection \<open>The listeners at the end of \<open>connect\<close>\<close>

text \<open>
  When \<open>sendPacket\<close> refuses the CONNECT packet, \<open>connect\<close> throws before its \<open>try\<close>:
  the two listeners it has registered stay registered.
\<close>

lemma connect_send_failure:
  assumes "backend_connect ext = None"
    and "backend_write ext (sent (packetDispatcher s)) (connect_packet ext) = Some e"
  shows "connect ext evs s = Threw e (connect_subscribe (connect_configure s))"
    and "listeners (packetDispatcher (connect_subscribe (connect_configure s))) =
      listeners (packetDispatcher s) @ [OnPacket, OnError]"
  using assms
  by (simp_all add: connect_def connect_begin_def sendPacket_def Let_def connect_subscribe_def
        connect_configure_def subscribe_def start_def)

text \<open>
  C6, where the code departs from it. On a new session whose transport refuses the
  CONNECT packet, \<open>connect\<close> throws the transport's error, whatever events follow, and
  leaves both listeners registered with the dispatcher, which had none before.
\<close>

theorem connect_send_failure_keeps_listeners:
  "connect broken_transport evs (new_Adb idle_dispatcher) =
     Threw (Error ''transfer failed'')
       ((new_Adb idle_dispatcher)
          \<lparr>packetDispatcher :=
             \<lparr>maxPayloadSize = 0x1000, calculateChecksum = True,
              appendNullToServiceString = True, started = True,
              listeners = [OnPacket, OnError], sent = []\<rparr>\<rparr>)
   \<and> listeners (packetDispatcher (new_Adb idle_dispatcher)) = []"
  by (simp add: connect_def connect_begin_def sendPacket_def Let_def connect_subscribe_def
        connect_configure_def subscribe_def start_def sample_defs)

text \<open>
  What the listeners left registered do afterwards: a CONNECT reply that arrives after
  the call has thrown sets the metadata of a session that is not connected.
\<close>

lemma leaked_listeners_set_metadata:
  "metadata
     (leaked_listeners broken_transport [PacketEvent widget_reply]
        (session (connect broken_transport [] (new_Adb idle_dispatcher))))
     = (Some ''widget'', Some ''X1'', None, Some [''shell_v2'', ''cmd''])
   \<and> \<not> connected
         (leaked_listeners broken_transport [PacketEvent widget_reply]
            (session (connect broken_transport [] (new_Adb idle_dispatcher))))"
  by (simp add: leaked_listeners_def metadata_def connect_defs sample_defs Let_def
        version_def versionNoChecksum_def local_maxPayloadSize_def parseBanner_def
        parseProp_def split_def AdbPropKey_defs)

text \<open>
  What holds of the claim: a \<open>connect\<close> that does not return leaves \<open>connected\<close> and
  the metadata as they were, and once the CONNECT packet was sent, a \<open>connect\<close> that
  returns or throws leaves the dispatcher with the listeners it had before.
\<close>

lemma connect_dispose_listeners:
  "mset (listeners (packetDispatcher (connect_dispose s))) =
     mset (listeners (packetDispatcher s)) - {#OnPacket, OnError#}"
  by (simp add: connect_dispose_def disposableList_dispose_def add_mset_commute)

lemma connect_dispose_fields:
  "connected (connect_dispose s) = connected s"
  "metadata (connect_dispose s) = metadata s"
  by (simp_all add: connect_dispose_def metadata_def)

lemma connect_begin_listeners:
  "connect_begin ext s = Inr s1 \<Longrightarrow>
   listeners (packetDispatcher s1) = listeners (packetDispatcher s) @ [OnPacket, OnError]"
  by (auto dest!: connect_begin_Inr
        simp: connect_subscribe_def connect_configure_def subscribe_def start_def)

lemma connect_begin_fields:
  "connect_begin ext s = Inr s1 \<Longrightarrow> connected s1 = connected s \<and> metadata s1 = metadata s"
  by (auto dest!: connect_begin_Inr
        simp: connect_subscribe_def connect_configure_def metadata_def)

lemma connect_begin_Inl:
  "connect_begin ext s = Inl (e, s1) \<Longrightarrow> connected s1 = connected s \<and> metadata s1 = metadata s"
  by (auto simp: connect_begin_def Let_def connect_subscribe_def connect_configure_def
        metadata_def split: option.splits sum.splits)

lemma connect_not_Returned:
  assumes "\<forall>s'. connect ext evs s \<noteq> Returned s'"
  shows "connected (session (connect ext evs s)) = connected s"
    and "metadata (session (connect ext evs s)) = metadata s"
proof -
  have "connected (session (connect ext evs s)) = connected s
      \<and> metadata (session (connect ext evs s)) = metadata s"
  proof (cases "connect_begin ext s")
    case (Inl x)
    then show ?thesis
      by (cases x) (auto simp: connect_def dest: connect_begin_Inl)
  next
    case (Inr s1)
    let ?h = "await_resolver ext evs \<lparr>adb = s1, authHandler = auth_init ext, resolver = Pending\<rparr>"
    from Inr have out: "connect ext evs s = connect_end ?h"
      by (simp add: connect_def)
    with assms have "resolver ?h \<noteq> Resolved"
      by (auto simp: connect_end_def)
    then have "same_but_sent s1 (adb ?h)"
      using await_resolver_not_resolved
        [of "\<lparr>adb = s1, authHandler = auth_init ext, resolver = Pending\<rparr>" ext evs]
      by simp
    then have "connected (adb ?h) = connected s1" "metadata (adb ?h) = metadata s1"
      by (simp_all add: same_but_sent_def metadata_def)
    moreover have "connected (session (connect_end ?h)) = connected (adb ?h)"
      "metadata (session (connect_end ?h)) = metadata (adb ?h)"
      using \<open>resolver ?h \<noteq> Resolved\<close>
      by (simp_all add: connect_end_def connect_dispose_fields split: promise.splits)
    ultimately show ?thesis
      using connect_begin_fields [OF Inr] out by simp
  qed
  then show "connected (session (connect ext evs s)) = connected s"
    and "metadata (session (connect ext evs s)) = metadata s"
    by simp_all
qed

lemma connect_settled_listeners:
  assumes "connect_begin ext s = Inr s1"
    and "connect ext evs s = Returned s' \<or> connect ext evs s = Threw e s'"
  shows "mset (listeners (packetDispatcher s')) = mset (listeners (packetDispatcher s))"
proof -
  let ?h = "await_resolver ext evs \<lparr>adb = s1, authHandler = auth_init ext, resolver = Pending\<rparr>"
  from assms(1) have out: "connect ext evs s = connect_end ?h"
    by (simp add: connect_def)
  have ls: "listeners (packetDispatcher (adb ?h)) = listeners (packetDispatcher s) @ [OnPacket, OnError]"
  proof (cases "resolver ?h = Resolved")
    case False
    then have "same_but_sent s1 (adb ?h)"
      using await_resolver_not_resolved
        [of "\<lparr>adb = s1, authHandler = auth_init ext, resolver = Pending\<rparr>" ext evs]
      by simp
    with assms(1) show ?thesis
      by (simp add: same_but_sent_def connect_begin_listeners)
  next
    case True
    then obtain p hp where p: "command p = Connect" "same_but_sent s1 (adb hp)"
      "?h = onPacket_listener ext p hp"
      using await_resolver_resolved
        [of "\<lparr>adb = s1, authHandler = auth_init ext, resolver = Pending\<rparr>" ext evs]
      by auto
    from p(1) have "listeners (packetDispatcher (adb (onPacket_listener ext p hp))) =
        listeners (packetDispatcher (adb hp))"
      by (simp add: onPacket_Connect_dispatcher)
    with p assms(1) show ?thesis
      by (simp add: same_but_sent_def connect_begin_listeners)
  qed
  from assms(2) out obtain s2 where "s' = connect_dispose s2"
    "listeners (packetDispatcher s2) = listeners (packetDispatcher (adb ?h))"
    by (auto simp: connect_end_def split: promise.splits)
  with ls show ?thesis
    by (simp add: connect_dispose_listeners)
qed


subsection \<open>The metadata accessors\<close>

lemma createStream_fields:
  "connected (session (createStream ext service s)) = connected s"
  "metadata (session (createStream ext service s)) = metadata s"
  by (simp_all add: createStream_def metadata_def split: prod.splits option.splits)

lemma createStream_not_Awaiting: "createStream ext service s \<noteq> Awaiting s'"
  by (simp add: createStream_def split: prod.splits option.splits)

lemma commands_helper_metadata:
  "metadata (session (commands_helper ext services s)) = metadata s"
proof (induction services arbitrary: s)
  case Nil
  then show ?case by simp
next
  case (Cons service services)
  show ?case
  proof (cases "createStream ext service s")
    case (Returned s')
    then have "metadata s' = metadata s"
      using createStream_fields(2) [of ext service s] by simp
    with Returned Cons.IH [of s'] show ?thesis by simp
  next
    case (Threw e s')
    then show ?thesis
      using createStream_fields(2) [of ext service s] by simp
  next
    case (Awaiting s')
    then show ?thesis
      using createStream_fields(2) [of ext service s] by simp
  qed
qed

lemma sync_metadata: "metadata (session (sync ext s)) = metadata s"
proof (cases "createStream ext ''sync:'' s")
  case (Returned s')
  then have "metadata s' = metadata s"
    using createStream_fields(2) [of ext "''sync:''" s] by simp
  with Returned show ?thesis
    by (simp add: sync_def commands_helper_metadata)
next
  case (Threw e s')
  then show ?thesis
    using createStream_fields(2) [of ext "''sync:''" s] by (simp add: sync_def)
next
  case (Awaiting s')
  then show ?thesis
    using createStream_fields(2) [of ext "''sync:''" s] by (simp add: sync_def)
qed

lemma dispose_fields:
  "connected (session (dispose ext s)) = connected s"
  "metadata (session (dispose ext s)) = metadata s"
  by (simp_all add: dispose_def Let_def metadata_def split: option.splits)

lemma perform_metadata:
  "\<not> is_connect op \<Longrightarrow> metadata (session (perform ext op s)) = metadata s"
  by (cases op)
    (simp_all add: shell_def spawn_def exec_def getProp_def rm_def install_def
       framebuffer_def sync_metadata commands_helper_metadata createStreamAndReadAll_def
       createStream_fields dispose_fields)

lemma perform_all_metadata:
  "\<forall>op \<in> set ops. \<not> is_connect op \<Longrightarrow> metadata (perform_all ext ops s) = metadata s"
  by (induction ops arbitrary: s) (simp_all add: perform_metadata)

lemma parseProp_metadata_cong:
  "metadata s = metadata t \<Longrightarrow> metadata (parseProp s p) = metadata (parseProp t p)"
  by (simp add: parseProp_def metadata_def split: list.splits)

lemma foldl_parseProp_metadata_cong:
  "metadata s = metadata t \<Longrightarrow>
   metadata (foldl parseProp s props) = metadata (foldl parseProp t props)"
proof (induction props arbitrary: s t)
  case Nil
  then show ?case by simp
next
  case (Cons p ps)
  from Cons.prems have "metadata (parseProp s p) = metadata (parseProp t p)"
    by (rule parseProp_metadata_cong)
  then have "metadata (foldl parseProp (parseProp s p) ps) =
      metadata (foldl parseProp (parseProp t p) ps)"
    by (rule Cons.IH)
  then show ?case by simp
qed

lemma parseBanner_metadata_cong:
  "metadata s = metadata t \<Longrightarrow>
   metadata (parseBanner banner s) = metadata (parseBanner banner t)"
  unfolding parseBanner_entries
  by (rule foldl_parseProp_metadata_cong) (simp add: metadata_def)

lemma parseBanner_features_defined: "features (parseBanner banner s) \<noteq> None"
  by (simp add: parseBanner_entries foldl_parseProp_features_defined)

lemma connect_Returned_metadata:
  assumes "connect ext evs s = Returned s'"
  shows "\<exists>q. PacketEvent q \<in> set evs \<and> command q = Connect
      \<and> metadata s' = metadata (parseBanner (decodeUtf8 ext (payload q)) s)"
    and "features s' \<noteq> None"
proof -
  from assms obtain s1 q hp where s1: "connect_begin ext s = Inr s1"
    and q: "PacketEvent q \<in> set evs" "command q = Connect"
    and hp: "same_but_sent s1 (adb hp)"
    and s': "s' = connect_dispose ((adb (onPacket_listener ext q hp))\<lparr>connected := True\<rparr>)"
    by (rule connect_Returned)
  let ?b = "decodeUtf8 ext (payload q)"
  from q(2) obtain d where after: "adb (onPacket_listener ext q hp) =
      parseBanner ?b ((adb hp)\<lparr>packetDispatcher := d\<rparr>)"
    by (simp add: onPacket_Connect)
  from hp s1 have "metadata ((adb hp)\<lparr>packetDispatcher := d\<rparr>) = metadata s"
    using connect_begin_fields [OF s1] by (simp add: same_but_sent_def metadata_def)
  then have "metadata (parseBanner ?b ((adb hp)\<lparr>packetDispatcher := d\<rparr>)) =
      metadata (parseBanner ?b s)"
    by (rule parseBanner_metadata_cong)
  with after have "metadata s' = metadata (parseBanner ?b s)"
    by (simp add: s' connect_dispose_def metadata_def)
  with q show "\<exists>q. PacketEvent q \<in> set evs \<and> command q = Connect
      \<and> metadata s' = metadata (parseBanner (decodeUtf8 ext (payload q)) s)"
    by blast
  from after show "features s' \<noteq> None"
    by (simp add: s' connect_dispose_def parseBanner_features_defined)
qed

lemma connect_settled_no_listeners:
  assumes "listeners (packetDispatcher s) = []"
    and "backend_write ext (sent (packetDispatcher s)) (connect_packet ext) = None"
    and "connect ext evs s = Returned s' \<or> connect ext evs s = Threw e s'"
  shows "listeners (packetDispatcher s') = []"
proof (cases "connect_begin ext s")
  case (Inl x)
  with assms(2) have "backend_connect ext \<noteq> None"
    by (auto simp: connect_begin_def Let_def sendPacket_def connect_subscribe_def
          connect_configure_def subscribe_def start_def split: option.splits)
  with Inl assms(3) have "s' = s"
    by (auto simp: connect_def connect_begin_def split: option.splits)
  with assms(1) show ?thesis by simp
next
  case (Inr s1)
  from connect_settled_listeners [OF Inr assms(3)] assms(1) show ?thesis
    by simp
qed


text \<open>
  C8, as the code has it, on a session whose dispatcher holds no listener of an earlier
  \<open>connect\<close> and with a transport that accepts the CONNECT packet. The four accessors
  read \<open>undefined\<close> on a new session. A \<open>connect\<close> that does not return (it throws,
  or is still waiting) leaves them as they were, so on a new session they still read
  \<open>undefined\<close>, and when it has thrown no listener is left to change them later. A
  \<open>connect\<close> that returns has set them from the banner of a CONNECT reply it was
  given, \<open>features\<close> is then defined, and again no listener is left. After that, no run
  of calls of \<open>shell\<close>, \<open>spawn\<close>, \<open>exec\<close>, \<open>getProp\<close>, \<open>rm\<close>, \<open>install\<close>,
  \<open>sync\<close>, \<open>framebuffer\<close>, \<open>createStream\<close>, \<open>createStreamAndReadAll\<close> and
  \<open>dispose\<close> changes them; a further \<open>connect\<close> is the one call that can.
\<close>

theorem metadata_absent_then_kept:
  "metadata (new_Adb d) = (None, None, None, None)
   \<and> (listeners (packetDispatcher s) = []
        \<and> backend_write ext (sent (packetDispatcher s)) (connect_packet ext) = None
        \<and> (\<forall>s'. connect ext evs s \<noteq> Returned s') \<longrightarrow>
        metadata (session (connect ext evs s)) = metadata s)
   \<and> (listeners d = []
        \<and> backend_write ext (sent d) (connect_packet ext) = None
        \<and> (\<forall>s'. connect ext evs (new_Adb d) \<noteq> Returned s') \<longrightarrow>
        metadata (session (connect ext evs (new_Adb d))) = (None, None, None, None))
   \<and> (listeners (packetDispatcher s) = []
        \<and> backend_write ext (sent (packetDispatcher s)) (connect_packet ext) = None
        \<and> connect ext evs s = Threw e s' \<longrightarrow>
        listeners (packetDispatcher s') = [])
   \<and> (listeners (packetDispatcher s) = [] \<and> connect ext evs s = Returned s' \<longrightarrow>
        (\<exists>q. PacketEvent q \<in> set evs \<and> command q = Connect
           \<and> metadata s' = metadata (parseBanner (decodeUtf8 ext (payload q)) s))
        \<and> features s' \<noteq> None
        \<and> listeners (packetDispatcher s') = [])
   \<and> ((\<forall>op \<in> set ops. \<not> is_connect op) \<longrightarrow>
        metadata (perform_all ext ops t) = metadata t)"
proof -
  have new: "metadata (new_Adb d) = (None, None, None, None)"
    by (simp add: metadata_def new_Adb_def)
  have failed: "listeners (packetDispatcher s) = []
        \<and> backend_write ext (sent (packetDispatcher s)) (connect_packet ext) = None
        \<and> (\<forall>s'. connect ext evs s \<noteq> Returned s') \<longrightarrow>
        metadata (session (connect ext evs s)) = metadata s"
    by (simp add: connect_not_Returned)
  have failed_new: "listeners d = []
        \<and> backend_write ext (sent d) (connect_packet ext) = None
        \<and> (\<forall>s'. connect ext evs (new_Adb d) \<noteq> Returned s') \<longrightarrow>
        metadata (session (connect ext evs (new_Adb d))) = (None, None, None, None)"
    using new by (simp add: connect_not_Returned)
  have threw: "listeners (packetDispatcher s) = []
        \<and> backend_write ext (sent (packetDispatcher s)) (connect_packet ext) = None
        \<and> connect ext evs s = Threw e s' \<longrightarrow>
        listeners (packetDispatcher s') = []"
    using connect_settled_no_listeners [of s ext evs s' e] by blast
  have returned: "listeners (packetDispatcher s) = [] \<and> connect ext evs s = Returned s' \<longrightarrow>
        (\<exists>q. PacketEvent q \<in> set evs \<and> command q = Connect
           \<and> metadata s' = metadata (parseBanner (decodeUtf8 ext (payload q)) s))
        \<and> features s' \<noteq> None
        \<and> listeners (packetDispatcher s') = []"
  proof (intro impI, elim conjE)
    assume none: "listeners (packetDispatcher s) = []"
      and ret: "connect ext evs s = Returned s'"
    from ret obtain s1 where s1: "connect_begin ext s = Inr s1"
      by (auto simp: connect_def split: sum.splits prod.splits)
    from connect_settled_listeners [OF s1, of evs s'] ret none
    have "listeners (packetDispatcher s') = []" by simp
    with connect_Returned_metadata [OF ret]
    show "(\<exists>q. PacketEvent q \<in> set evs \<and> command q = Connect
           \<and> metadata s' = metadata (parseBanner (decodeUtf8 ext (payload q)) s))
        \<and> features s' \<noteq> None
        \<and> listeners (packetDispatcher s') = []"
      by blast
  qed
  have kept: "(\<forall>op \<in> set ops. \<not> is_connect op) \<longrightarrow>
        metadata (perform_all ext ops t) = metadata t"
    by (simp add: perform_all_metadata)
  from new failed failed_new threw returned kept show ?thesis
    by (intro conjI)
qed

text \<open>A handshake that fails: an AUTH challenge is answered, then a WRITE arrives.\<close>

lemma connect_auth_then_write:
  "connect sample_externals [PacketEvent auth_challenge, PacketEvent stray_write]
     (new_Adb idle_dispatcher) =
   Threw DeviceNotInCorrectState
     ((new_Adb idle_dispatcher)
        \<lparr>packetDispatcher :=
           \<lparr>maxPayloadSize = 0x1000, calculateChecksum = True,
            appendNullToServiceString = True, started = True, listeners = [],
            sent = [connect_packet sample_externals,
                    Packet \<lparr>command = Auth, arg0 = 0, arg1 = 0, payload = ''token''\<rparr>]\<rparr>\<rparr>)"
  by (simp add: connect_defs sample_defs Let_def)

text \<open>
  The theorem at that failed handshake on a new session, at a handshake that completes,
  and at six calls on the session it leaves.
\<close>

theorem metadata_absent_then_kept_witness:
  "listeners (packetDispatcher (new_Adb idle_dispatcher)) = []
   \<and> backend_write sample_externals (sent (packetDispatcher (new_Adb idle_dispatcher)))
        (connect_packet sample_externals) = None
   \<and> (\<forall>s'. connect sample_externals [PacketEvent auth_challenge, PacketEvent stray_write]
           (new_Adb idle_dispatcher) \<noteq> Returned s')
   \<and> metadata
        (session
           (connect sample_externals [PacketEvent auth_challenge, PacketEvent stray_write]
              (new_Adb idle_dispatcher))) = (None, None, None, None)
   \<and> listeners
        (packetDispatcher
           (session
              (connect sample_externals [PacketEvent auth_challenge, PacketEvent stray_write]
                 (new_Adb idle_dispatcher)))) = []
   \<and> metadata
        (session (connect sample_externals [PacketEvent widget_reply] (new_Adb idle_dispatcher)))
       = metadata
           (parseBanner (decodeUtf8 sample_externals (payload widget_reply))
              (new_Adb idle_dispatcher))
   \<and> list_all (\<lambda>op. \<not> is_connect op)
        [OpShell, OpExec ''ls'' [''-l''], OpInstall ''apk'', OpFramebuffer, OpSync, OpDispose]
   \<and> metadata
        (perform_all sample_externals
           [OpShell, OpExec ''ls'' [''-l''], OpInstall ''apk'', OpFramebuffer, OpSync, OpDispose]
           (session
              (connect sample_externals [PacketEvent widget_reply] (new_Adb idle_dispatcher))))
       = (Some ''widget'', Some ''X1'', None, Some [''shell_v2'', ''cmd''])"
proof -
  have fresh: "listeners (packetDispatcher (new_Adb idle_dispatcher)) = []
      \<and> backend_write sample_externals (sent (packetDispatcher (new_Adb idle_dispatcher)))
           (connect_packet sample_externals) = None"
    by (simp add: new_Adb_def idle_dispatcher_def sample_externals_def)
  have failed: "\<forall>s'. connect sample_externals [PacketEvent auth_challenge, PacketEvent stray_write]
           (new_Adb idle_dispatcher) \<noteq> Returned s'"
    by (simp add: connect_auth_then_write)
  have returned: "metadata
        (session (connect sample_externals [PacketEvent widget_reply] (new_Adb idle_dispatcher)))
       = (Some ''widget'', Some ''X1'', None, Some [''shell_v2'', ''cmd''])"
    by (simp add: connect_widget_reply metadata_def)
  have banner: "metadata
        (parseBanner (decodeUtf8 sample_externals (payload widget_reply))
           (new_Adb idle_dispatcher))
       = (Some ''widget'', Some ''X1'', None, Some [''shell_v2'', ''cmd''])"
    by (simp add: sample_defs metadata_def parseBanner_def parseProp_def split_def
          AdbPropKey_defs)
  have ops: "list_all (\<lambda>op. \<not> is_connect op)
        [OpShell, OpExec ''ls'' [''-l''], OpInstall ''apk'', OpFramebuffer, OpSync, OpDispose]"
    by simp
  have completed: "connect sample_externals [PacketEvent widget_reply] (new_Adb idle_dispatcher) =
      Returned
        (session (connect sample_externals [PacketEvent widget_reply] (new_Adb idle_dispatcher)))"
    by (simp add: connect_widget_reply)
  from fresh failed ops
    metadata_absent_then_kept
      [of idle_dispatcher "new_Adb idle_dispatcher" sample_externals
          "[PacketEvent auth_challenge, PacketEvent stray_write]"
          DeviceNotInCorrectState
          "session
             (connect sample_externals [PacketEvent auth_challenge, PacketEvent stray_write]
                (new_Adb idle_dispatcher))"
          "[OpShell, OpExec ''ls'' [''-l''], OpInstall ''apk'', OpFramebuffer, OpSync, OpDispose]"
          "session (connect sample_externals [PacketEvent widget_reply] (new_Adb idle_dispatcher))"]
  have "metadata
        (session
           (connect sample_externals [PacketEvent auth_challenge, PacketEvent stray_write]
              (new_Adb idle_dispatcher))) = (None, None, None, None)"
    and "listeners
        (packetDispatcher
           (session
              (connect sample_externals [PacketEvent auth_challenge, PacketEvent stray_write]
                 (new_Adb idle_dispatcher)))) = []"
    and "metadata
        (perform_all sample_externals
           [OpShell, OpExec ''ls'' [''-l''], OpInstall ''apk'', OpFramebuffer, OpSync, OpDispose]
           (session
              (connect sample_externals [PacketEvent widget_reply] (new_Adb idle_dispatcher))))
       = (Some ''widget'', Some ''X1'', None, Some [''shell_v2'', ''cmd''])"
    by (simp_all add: connect_auth_then_write returned)
  moreover from fresh completed
    metadata_absent_then_kept
      [of idle_dispatcher "new_Adb idle_dispatcher" sample_externals
          "[PacketEvent widget_reply]" DeviceNotInCorrectState
          "session (connect sample_externals [PacketEvent widget_reply] (new_Adb idle_dispatcher))"]
  have "metadata
        (session (connect sample_externals [PacketEvent widget_reply] (new_Adb idle_dispatcher)))
       = metadata
           (parseBanner (decodeUtf8 sample_externals (payload widget_reply))
              (new_Adb idle_dispatcher))"
    by auto
  ultimately have "metadata
        (session
           (connect sample_externals [PacketEvent auth_challenge, PacketEvent stray_write]
              (new_Adb idle_dispatcher))) = (None, None, None, None)"
    and "listeners
        (packetDispatcher
           (session
              (connect sample_externals [PacketEvent auth_challenge, PacketEvent stray_write]
                 (new_Adb idle_dispatcher)))) = []"
    and "metadata
        (perform_all sample_externals
           [OpShell, OpExec ''ls'' [''-l''], OpInstall ''apk'', OpFramebuffer, OpSync, OpDispose]
           (session
              (connect sample_externals [PacketEvent widget_reply] (new_Adb idle_dispatcher))))
       = (Some ''widget'', Some ''X1'', None, Some [''shell_v2'', ''cmd''])"
    and "metadata
        (session (connect sample_externals [PacketEvent widget_reply] (new_Adb idle_dispatcher)))
       = metadata
           (parseBanner (decodeUtf8 sample_externals (payload widget_reply))
              (new_Adb idle_dispatcher))"
    by simp_all
  with fresh failed returned banner ops show ?thesis
    by (intro conjI) simp_all
qed

text \<open>
  C8, as stated, fails: on a session whose handshake completed with the product
  \<open>widget\<close> and two features, a second \<open>connect\<close> whose reply names the product
  \<open>gadget\<close> and no features changes both accessors.
\<close>

theorem metadata_changed_by_reconnect:
  "connected
     (session (connect sample_externals [PacketEvent widget_reply] (new_Adb idle_dispatcher)))
   \<and> product
       (session (connect sample_externals [PacketEvent widget_reply] (new_Adb idle_dispatcher)))
       = Some ''widget''
   \<and> features
       (session (connect sample_externals [PacketEvent widget_reply] (new_Adb idle_dispatcher)))
       = Some [''shell_v2'', ''cmd'']
   \<and> product
       (session
          (perform sample_externals (OpConnect [PacketEvent legacy_reply])
             (session
                (connect sample_externals [PacketEvent widget_reply] (new_Adb idle_dispatcher)))))
       = Some ''gadget''
   \<and> features
       (session
          (perform sample_externals (OpConnect [PacketEvent legacy_reply])
             (session
                (connect sample_externals [PacketEvent widget_reply] (new_Adb idle_dispatcher)))))
       = Some []"
  by (simp add: connect_widget_reply)
    (simp add: connect_defs sample_defs Let_def version_def versionNoChecksum_def
       local_maxPayloadSize_def parseBanner_def parseProp_def split_def AdbPropKey_defs)

end
